theory Spec2Isabelle
  imports Main "HOL-Library.Word"
begin

section \<open>The Python runtime as far as the camera session uses it\<close>

text \<open>
  The module \<^verbatim>\<open>ic_camera_control.py\<close> is a class \<^verbatim>\<open>IcCameraControl\<close> over a vendor
  library loaded with \<^verbatim>\<open>ctypes\<close>. A method either returns a value or raises; both
  come back together with the state the method leaves behind, since the object
  survives an exception.
\<close>

datatype py_error = AttributeError | ValueError | OverflowError | TypeError

datatype 'a outcome = Returned 'a | Raised py_error

datatype level = DEBUG | INFO | WARNING | ERROR

type_synonym log_record = "level \<times> string"

text \<open>
  \<^verbatim>\<open>ctypes.c_long\<close> and \<^verbatim>\<open>ctypes.c_int\<close> are 32 bits wide on the platform of the
  library (\<^verbatim>\<open>tisgrabber_x64.dll\<close>, Windows); \<^verbatim>\<open>.value\<close> reads them signed
  (\<open>sint\<close>). A \<^verbatim>\<open>POINTER(HGRABBER)\<close> holds an address, 0 being the null pointer.
\<close>

type_synonym c_long = "32 word"
type_synonym c_int = "32 word"
type_synonym hgrabber = nat
type_synonym hframefilter = nat
type_synonym descr = "c_long \<times> c_long \<times> c_int \<times> c_int"

text \<open>
  \<^verbatim>\<open>int(x / 8.0)\<close>: true division, then truncation towards zero. The quotient of a
  32-bit value by 8 is exact in a double, so the result is the truncated integer
  quotient.
\<close>

definition int_truediv8 :: "int \<Rightarrow> int" where
  "int_truediv8 b = sgn b * (\<bar>b\<bar> div 8)"

text \<open>
  \<^verbatim>\<open>ctypes.c_ubyte * n\<close>: the array type of \<open>n\<close> bytes. The length goes through a
  \<^verbatim>\<open>Py_ssize_t\<close> (OverflowError outside 64 bits) and must not be negative
  (ValueError). The result is the array's size in bytes.
\<close>

definition c_ubyte_array :: "int \<Rightarrow> py_error + int" where
  "c_ubyte_array n =
     (if n < - (2 ^ 63) \<or> 2 ^ 63 - 1 < n then Inl OverflowError
      else if n < 0 then Inl ValueError
      else Inr n)"

text \<open>
  \<^verbatim>\<open>np.ndarray(buffer=b, dtype=np.uint8, shape=dims)\<close>: a view of \<open>b\<close>, no copy. A
  dimension that is negative or does not fit the index type, or a size that does not,
  is a ValueError; a buffer shorter than the array is a TypeError. The array keeps
  the address it views and its shape; an element of \<^verbatim>\<open>uint8\<close> is one byte.
\<close>

record ndarray =
  nd_buffer :: nat
  nd_shape :: "int list"

definition itemsize_uint8 :: int where
  "itemsize_uint8 = 1"

definition nbytes :: "ndarray \<Rightarrow> int" where
  "nbytes a = prod_list (nd_shape a) * itemsize_uint8"

definition np_ndarray :: "nat \<Rightarrow> int \<Rightarrow> int list \<Rightarrow> py_error + ndarray" where
  "np_ndarray buffer_addr buffer_len dims =
     (if list_ex (\<lambda>d. d < 0 \<or> 2 ^ 63 - 1 < d) dims then Inl ValueError
      else if 2 ^ 63 - 1 < prod_list dims * itemsize_uint8 then Inl ValueError
      else if buffer_len < prod_list dims * itemsize_uint8 then Inl TypeError
      else Inr \<lparr>nd_buffer = buffer_addr, nd_shape = dims\<rparr>)"

section \<open>The vendor library, as the session sees it\<close>

text \<open>
  \<^verbatim>\<open>self.ic\<close> is the loaded library: a table of foreign functions over a state of the
  library's own, \<open>'v\<close>, that the session cannot see. The functions are a parameter of
  every method, as \<^verbatim>\<open>self.ic\<close> is. A function that only reports takes the state; one
  that acts returns the new state beside its result. Arguments passed by reference
  (the geometry of \<^verbatim>\<open>IC_GetImageDescription\<close>, the handle of \<^verbatim>\<open>IC_ReleaseGrabber\<close>,
  the filter of \<^verbatim>\<open>IC_CreateFrameFilter\<close>) come back as results. A \<^verbatim>\<open>c_char_p\<close> or
  \<^verbatim>\<open>c_void_p\<close> result is \<open>None\<close> for a null pointer, as \<^verbatim>\<open>ctypes\<close> converts it.
\<close>

record 'v ic_lib =
  IC_InitLibrary :: "'v \<Rightarrow> int \<Rightarrow> int \<times> 'v"
  IC_CreateGrabber :: "'v \<Rightarrow> hgrabber \<times> 'v"
  IC_LoadDeviceStateFromFileEx :: "'v \<Rightarrow> hgrabber \<Rightarrow> string \<Rightarrow> bool \<Rightarrow> int \<times> 'v"
  IC_IsDevValid :: "'v \<Rightarrow> hgrabber \<Rightarrow> int"
  IC_GetDeviceCount :: "'v \<Rightarrow> int"
  IC_ShowDeviceSelectionDialog :: "'v \<Rightarrow> hgrabber option \<Rightarrow> hgrabber \<times> 'v"
  IC_GetUniqueNamefromList :: "'v \<Rightarrow> int \<Rightarrow> string option"
  IC_OpenDevByUniqueName :: "'v \<Rightarrow> hgrabber \<Rightarrow> string option \<Rightarrow> int \<times> 'v"
  IC_GetDeviceName :: "'v \<Rightarrow> hgrabber \<Rightarrow> string option"
  IC_SetCallbacks :: "'v \<Rightarrow> hgrabber \<Rightarrow> int \<times> 'v"
  IC_CreateFrameFilter :: "'v \<Rightarrow> string \<Rightarrow> hframefilter \<times> 'v"
  IC_AddFrameFilterToDevice :: "'v \<Rightarrow> hgrabber \<Rightarrow> hframefilter \<Rightarrow> int \<times> 'v"
  IC_FrameFilterSetParameterBoolean :: "'v \<Rightarrow> hframefilter \<Rightarrow> string \<Rightarrow> int \<Rightarrow> int \<times> 'v"
  IC_StartLive :: "'v \<Rightarrow> hgrabber \<Rightarrow> bool \<Rightarrow> int \<times> 'v"
  IC_GetImageDescription :: "'v \<Rightarrow> hgrabber \<Rightarrow> descr \<Rightarrow> descr"
  IC_SnapImage :: "'v \<Rightarrow> hgrabber \<Rightarrow> int \<Rightarrow> int \<times> 'v"
  IC_GetImagePtr :: "'v \<Rightarrow> hgrabber \<Rightarrow> nat option"
  IC_StopLive :: "'v \<Rightarrow> hgrabber \<Rightarrow> int \<times> 'v"
  IC_ReleaseGrabber :: "'v \<Rightarrow> hgrabber \<Rightarrow> hgrabber \<times> 'v"
  IC_ShowPropertyDialog :: "'v \<Rightarrow> hgrabber \<Rightarrow> int \<times> 'v"
  IC_printItemandElementNames :: "'v \<Rightarrow> hgrabber \<Rightarrow> int \<times> 'v"
  IC_SaveDeviceStateToFile :: "'v \<Rightarrow> hgrabber \<Rightarrow> string \<Rightarrow> int \<times> 'v"

text \<open>
  The status codes of the binding module \<^verbatim>\<open>tisgrabber\<close> that the session compares
  with. The module is not among the sources, so the codes are a parameter too.
\<close>

record tis_consts =
  IC_SUCCESS :: int
  IC_FILE_NOT_FOUND :: int
  IC_DEVICE_NOT_FOUND :: int
  IC_WRONG_XML_FORMAT :: int
  IC_WRONG_INCOMPATIBLE_XML :: int

section \<open>The session\<close>

record CallbackUserdata =
  unsused :: string
  devicename :: string
  connected :: bool

text \<open>
  The fields of \<^verbatim>\<open>IcCameraControl\<close>; \<open>m_width\<close> is \<^verbatim>\<open>self._width\<close>, and so on for
  the other private fields.
\<close>

record session =
  m_width :: c_long
  m_height :: c_long
  m_bits_per_pixel :: c_int
  m_color_format :: c_int
  m_channel :: int
  m_buffer_size :: int
  IC_MsgBox_show :: bool
  userdata :: CallbackUserdata
  m_hGrabber :: hgrabber

text \<open>
  What a method runs in: the object, the state of the library underneath it, and the
  records the module's logger has been handed.
\<close>

record 'v world =
  self :: session
  dll :: 'v
  logged :: "log_record list"

definition emit :: "level \<Rightarrow> string \<Rightarrow> 'v world \<Rightarrow> 'v world" where
  "emit lv msg w = w\<lparr>logged := logged w @ [(lv, msg)]\<rparr>"

definition width :: "session \<Rightarrow> int" where
  "width s = sint (m_width s)"

definition height :: "session \<Rightarrow> int" where
  "height s = sint (m_height s)"

definition userdate :: "session \<Rightarrow> CallbackUserdata" where
  "userdate s = userdata s"

text \<open>
  \<^verbatim>\<open>_deviceLostCallback(hGrabber, userdata)\<close>: the library calls it on a thread of
  its own with the \<^verbatim>\<open>userdata\<close> object registered by \<^verbatim>\<open>IC_SetCallbacks\<close>.
\<close>

definition deviceLostCallback :: "CallbackUserdata \<Rightarrow> CallbackUserdata \<times> log_record list" where
  "deviceLostCallback ud =
     (let ud' = ud\<lparr>connected := False\<rparr>
      in (ud', [(ERROR, ''Device '' @ devicename ud' @ '' lost'')]))"

definition handle_device_open_error :: "'v world \<Rightarrow> 'v world" where
  "handle_device_open_error w = emit INFO ''No device opened'' w"

definition read :: "'v ic_lib \<Rightarrow> tis_consts \<Rightarrow> 'v world \<Rightarrow>
    (bool \<times> ndarray option) option outcome \<times> 'v world" where
  "read ic tis w =
     (let s = self w;
          (status, v1) = IC_SnapImage ic (dll w) (m_hGrabber s) (- 1);
          w1 = w\<lparr>dll := v1\<rparr>
      in if status = IC_SUCCESS tis then
           (case IC_GetImagePtr ic v1 (m_hGrabber s) of
              Some image_ptr \<Rightarrow>
                (case c_ubyte_array (m_buffer_size s) of
                   Inl e \<Rightarrow> (Raised e, w1)
                 | Inr buffer_len \<Rightarrow>
                     (case np_ndarray image_ptr buffer_len
                             [sint (m_height s), sint (m_width s), m_channel s] of
                        Inl e \<Rightarrow> (Raised e, w1)
                      | Inr img_array \<Rightarrow>
                          (Returned (Some (connected (userdata s), Some img_array)), w1)))
            | None \<Rightarrow> (Returned None, emit WARNING ''No device found.'' w1))
         else (Returned (Some (connected (userdata s), None)), w1))"

definition load_properties :: "'v ic_lib \<Rightarrow> tis_consts \<Rightarrow> 'v world \<Rightarrow> string \<Rightarrow> bool \<Rightarrow>
    unit outcome \<times> 'v world" where
  "load_properties ic tis w config_file_path should_open_device =
     (let (ret, v1) = IC_LoadDeviceStateFromFileEx ic (dll w) (m_hGrabber (self w))
                        config_file_path should_open_device;
          w1 = w\<lparr>dll := v1\<rparr>
      in if ret = IC_FILE_NOT_FOUND tis \<or> ret = IC_DEVICE_NOT_FOUND tis
            \<or> ret = IC_WRONG_XML_FORMAT tis \<or> ret = IC_WRONG_INCOMPATIBLE_XML tis
         then (Returned (), emit ERROR ''Can not load config'' w1)
         else (Returned (), w1))"

definition select_device :: "'v ic_lib \<Rightarrow> 'v world \<Rightarrow> hgrabber \<times> 'v world" where
  "select_device ic w =
     (let devicecount = IC_GetDeviceCount ic (dll w)
      in if devicecount > 1 then
           (let (h, v1) = IC_ShowDeviceSelectionDialog ic (dll w) None
            in (h, w\<lparr>dll := v1\<rparr>))
         else
           (let unique_name = IC_GetUniqueNamefromList ic (dll w) 0;
                (status, v1) = IC_OpenDevByUniqueName ic (dll w) (m_hGrabber (self w)) unique_name
            in (m_hGrabber (self w), w\<lparr>dll := v1\<rparr>)))"

text \<open>
  \<^verbatim>\<open>IC_GetDeviceName(...).decode('utf-8', 'ignore')\<close>: a null name is \<open>None\<close>, which
  has no \<^verbatim>\<open>decode\<close>; the name the library returns is taken as already decoded.
\<close>

definition setup_device :: "'v ic_lib \<Rightarrow> 'v world \<Rightarrow> unit outcome \<times> 'v world" where
  "setup_device ic w =
     (case IC_GetDeviceName ic (dll w) (m_hGrabber (self w)) of
        None \<Rightarrow> (Raised AttributeError, w)
      | Some name \<Rightarrow>
          (let s1 = (self w)\<lparr>userdata := (userdata (self w))\<lparr>devicename := name\<rparr>\<rparr>;
               s2 = s1\<lparr>userdata := (userdata s1)\<lparr>connected := True\<rparr>\<rparr>;
               (status, v1) = IC_SetCallbacks ic (dll w) (m_hGrabber s2)
           in (Returned (), w\<lparr>self := s2, dll := v1\<rparr>)))"

definition open_device :: "'v ic_lib \<Rightarrow> tis_consts \<Rightarrow> 'v world \<Rightarrow> string \<Rightarrow>
    bool outcome \<times> 'v world" where
  "open_device ic tis w config_file_path =
     (let (r, w1) = load_properties ic tis w config_file_path True;
          w2 = (if IC_IsDevValid ic (dll w1) (m_hGrabber (self w1)) = 0 then
                  (let (h, w') = select_device ic w1
                   in w'\<lparr>self := (self w')\<lparr>m_hGrabber := h\<rparr>\<rparr>)
                else w1)
      in if IC_IsDevValid ic (dll w2) (m_hGrabber (self w2)) \<noteq> 0 then
           (case setup_device ic w2 of
              (Raised e, w3) \<Rightarrow> (Raised e, w3)
            | (Returned u, w3) \<Rightarrow>
                (Returned True,
                 emit INFO (''Device '' @ devicename (userdata (self w3)) @ '' open'') w3))
         else (Returned False, handle_device_open_error w2))"

definition get_image_description :: "'v ic_lib \<Rightarrow> 'v world \<Rightarrow> unit outcome \<times> 'v world" where
  "get_image_description ic w =
     (let s = self w;
          (wd, ht, bpp, fmt) = IC_GetImageDescription ic (dll w) (m_hGrabber s)
                                 (m_width s, m_height s, m_bits_per_pixel s, m_color_format s);
          s1 = s\<lparr>m_width := wd, m_height := ht, m_bits_per_pixel := bpp, m_color_format := fmt\<rparr>;
          s2 = s1\<lparr>m_channel := int_truediv8 (sint (m_bits_per_pixel s1))\<rparr>;
          s3 = s2\<lparr>m_buffer_size := sint (m_width s2) * sint (m_height s2)
                                     * sint (m_bits_per_pixel s2)\<rparr>
      in (Returned (), w\<lparr>self := s3\<rparr>))"

definition start :: "'v ic_lib \<Rightarrow> 'v world \<Rightarrow> bool \<Rightarrow> unit outcome \<times> 'v world" where
  "start ic w create_window =
     (let (status, v1) = IC_StartLive ic (dll w) (m_hGrabber (self w)) create_window
      in get_image_description ic (w\<lparr>dll := v1\<rparr>))"

definition release :: "'v ic_lib \<Rightarrow> 'v world \<Rightarrow> unit outcome \<times> 'v world" where
  "release ic w =
     (if IC_IsDevValid ic (dll w) (m_hGrabber (self w)) \<noteq> 0 then
        (let (status, v1) = IC_StopLive ic (dll w) (m_hGrabber (self w));
             (h', v2) = IC_ReleaseGrabber ic v1 (m_hGrabber (self w))
         in (Returned (), w\<lparr>self := (self w)\<lparr>m_hGrabber := h'\<rparr>, dll := v2\<rparr>))
      else (Returned (), w))"

text \<open>
  \<^verbatim>\<open>show_property_dialog\<close> starts a thread that calls the library; the thread's one
  call is taken here at the point where the thread is started.
\<close>

definition show_property_dialog :: "'v ic_lib \<Rightarrow> 'v world \<Rightarrow> unit outcome \<times> 'v world" where
  "show_property_dialog ic w =
     (let (status, v1) = IC_ShowPropertyDialog ic (dll w) (m_hGrabber (self w))
      in (Returned (), w\<lparr>dll := v1\<rparr>))"

definition list_available_properties :: "'v ic_lib \<Rightarrow> 'v world \<Rightarrow> unit outcome \<times> 'v world" where
  "list_available_properties ic w =
     (let (status, v1) = IC_printItemandElementNames ic (dll w) (m_hGrabber (self w))
      in (Returned (), w\<lparr>dll := v1\<rparr>))"

definition save_properties :: "'v ic_lib \<Rightarrow> 'v world \<Rightarrow> string \<Rightarrow> unit outcome \<times> 'v world" where
  "save_properties ic w file_path =
     (let (status, v1) = IC_SaveDeviceStateToFile ic (dll w) (m_hGrabber (self w)) file_path
      in (Returned (), w\<lparr>dll := v1\<rparr>))"

definition flip_image :: "'v ic_lib \<Rightarrow> 'v world \<Rightarrow> unit outcome \<times> 'v world" where
  "flip_image ic w =
     (let (flt, v1) = IC_CreateFrameFilter ic (dll w) ''Rotate Flip'';
          (st2, v2) = IC_AddFrameFilterToDevice ic v1 (m_hGrabber (self w)) flt;
          (st3, v3) = IC_FrameFilterSetParameterBoolean ic v2 flt ''Flip V'' 1
      in (Returned (), w\<lparr>dll := v3\<rparr>))"

text \<open>
  \<^verbatim>\<open>__init__\<close>, from the library already loaded (\<open>ic\<close>) in its state \<open>v0\<close>: the fields,
  \<^verbatim>\<open>IC_InitLibrary(0)\<close>, the user data, \<^verbatim>\<open>IC_CreateGrabber()\<close>, then
  \<^verbatim>\<open>open_device\<close>, \<^verbatim>\<open>_flip_image\<close> and \<^verbatim>\<open>start\<close>, whatever \<^verbatim>\<open>open_device\<close> returned.
\<close>

definition init :: "'v ic_lib \<Rightarrow> tis_consts \<Rightarrow> 'v \<Rightarrow> string \<Rightarrow> bool \<Rightarrow> unit outcome \<times> 'v world" where
  "init ic tis v0 config_file_path msgbox_show =
     (let (st0, v1) = IC_InitLibrary ic v0 0;
          ud = \<lparr>unsused = '''', devicename = '''', connected = False\<rparr>;
          (h, v2) = IC_CreateGrabber ic v1;
          s = \<lparr>m_width = 0, m_height = 0, m_bits_per_pixel = 0, m_color_format = 0,
               m_channel = 0, m_buffer_size = 0, IC_MsgBox_show = msgbox_show,
               userdata = ud, m_hGrabber = h\<rparr>;
          w = \<lparr>self = s, dll = v2, logged = []\<rparr>
      in case open_device ic tis w config_file_path of
           (Raised e, w1) \<Rightarrow> (Raised e, w1)
         | (Returned opened, w1) \<Rightarrow>
             (let (r2, w2) = flip_image ic w1
              in start ic w2 False))"

section \<open>Sequences of operations\<close>

text \<open>
  What happens to a session over its life: the caller invokes a public method, the
  library's thread delivers the device-lost notification, or the library's state
  changes underneath (a camera is plugged or unplugged, a file appears). Each is taken
  as one step; \<open>run\<close> takes the steps in order, \<open>results\<close> lists what each step gave back.
\<close>

datatype op = Read | Open_device string | Load_properties string bool | Start bool
  | Release | Show_property_dialog | List_available_properties | Save_properties string

datatype 'v event = Call op | DeviceLost | Vendor 'v

datatype ret = RUnit | RBool bool | RFrame "(bool \<times> ndarray option) option"

definition returning :: "('a \<Rightarrow> ret) \<Rightarrow> 'a outcome \<times> 'v world \<Rightarrow> ret outcome \<times> 'v world" where
  "returning f rw = (map_outcome f (fst rw), snd rw)"

fun call :: "'v ic_lib \<Rightarrow> tis_consts \<Rightarrow> op \<Rightarrow> 'v world \<Rightarrow> ret outcome \<times> 'v world" where
  "call ic tis Read w = returning RFrame (read ic tis w)"
| "call ic tis (Open_device p) w = returning RBool (open_device ic tis w p)"
| "call ic tis (Load_properties p b) w = returning (\<lambda>u. RUnit) (load_properties ic tis w p b)"
| "call ic tis (Start b) w = returning (\<lambda>u. RUnit) (start ic w b)"
| "call ic tis Release w = returning (\<lambda>u. RUnit) (release ic w)"
| "call ic tis Show_property_dialog w = returning (\<lambda>u. RUnit) (show_property_dialog ic w)"
| "call ic tis List_available_properties w =
     returning (\<lambda>u. RUnit) (list_available_properties ic w)"
| "call ic tis (Save_properties p) w = returning (\<lambda>u. RUnit) (save_properties ic w p)"

fun step :: "'v ic_lib \<Rightarrow> tis_consts \<Rightarrow> 'v event \<Rightarrow> 'v world \<Rightarrow> ret outcome \<times> 'v world" where
  "step ic tis (Call a) w = call ic tis a w"
| "step ic tis DeviceLost w =
     (let (ud, recs) = deviceLostCallback (userdata (self w))
      in (Returned RUnit, w\<lparr>self := (self w)\<lparr>userdata := ud\<rparr>, logged := logged w @ recs\<rparr>))"
| "step ic tis (Vendor v') w = (Returned RUnit, w\<lparr>dll := v'\<rparr>)"

fun run :: "'v ic_lib \<Rightarrow> tis_consts \<Rightarrow> 'v event list \<Rightarrow> 'v world \<Rightarrow> 'v world" where
  "run ic tis [] w = w"
| "run ic tis (e # es) w = run ic tis es (snd (step ic tis e w))"

fun results :: "'v ic_lib \<Rightarrow> tis_consts \<Rightarrow> 'v event list \<Rightarrow> 'v world \<Rightarrow>
    ('v event \<times> ret outcome) list" where
  "results ic tis [] w = []"
| "results ic tis (e # es) w =
     (e, fst (step ic tis e w)) # results ic tis es (snd (step ic tis e w))"

definition successful_open :: "'v event \<times> ret outcome \<Rightarrow> bool" where
  "successful_open er =
     (case er of
        (Call (Open_device p), Returned (RBool True)) \<Rightarrow> True
      | _ \<Rightarrow> False)"

definition is_connected :: "'v world \<Rightarrow> bool" where
  "is_connected w = connected (userdata (self w))"

section \<open>A library to run the session against\<close>

text \<open>
  Modelled from the spec: the vendor library (\<^verbatim>\<open>tisgrabber_x64.dll\<close>) and its binding
  module \<^verbatim>\<open>tisgrabber\<close> are not among the sources. The spec describes a device handle
  as an opaque identifier into the library's internal object table, a configuration
  file as an opaque document naming a device, and three cases of opening: one device
  is opened directly, several need a selection by the operator, none is a failure.
  \<open>sim\<close> is that table with the surroundings the library reads: the cameras
  enumerated, the files, what the operator picks in the selection dialog, and what
  the camera delivers. The general theorems below hold for every library; this one
  gives the concrete runs.
\<close>

datatype cfg_file = Malformed | Incompatible | Device_state string

record grabber =
  device :: "string option"
  live :: bool

record sim =
  table :: "hgrabber \<rightharpoonup> grabber"
  fresh :: hgrabber
  devices :: "string list"
  files :: "string \<rightharpoonup> cfg_file"
  operator_choice :: "nat option"
  dialogs_shown :: nat
  snap_status :: int
  image_ptr :: "nat option"
  video_format :: descr

text \<open>
  Modelled from the spec: the status codes of the binding module, with the values of
  the vendor's header (success 1; file not found 35; device not found -5; wrong XML
  format -1; incompatible XML -3).
\<close>

definition tisgrabber :: tis_consts where
  "tisgrabber = \<lparr>IC_SUCCESS = 1, IC_FILE_NOT_FOUND = 35, IC_DEVICE_NOT_FOUND = - 5,
                 IC_WRONG_XML_FORMAT = - 1, IC_WRONG_INCOMPATIBLE_XML = - 3\<rparr>"

text \<open>
  Modelled from the spec: a handle identifies an object of the table, the null handle
  none; it is valid when its grabber has a device open.
\<close>

definition lookup :: "sim \<Rightarrow> hgrabber \<Rightarrow> grabber option" where
  "lookup v h = (if h = 0 then None else table v h)"

definition sim_IsDevValid :: "sim \<Rightarrow> hgrabber \<Rightarrow> int" where
  "sim_IsDevValid v h =
     (case lookup v h of
        None \<Rightarrow> 0
      | Some g \<Rightarrow> (if device g = None then 0 else 1))"

text \<open>Modelled from the spec: creating a grabber enters a new object, with no device.\<close>

definition sim_CreateGrabber :: "sim \<Rightarrow> hgrabber \<times> sim" where
  "sim_CreateGrabber v =
     (fresh v, v\<lparr>table := (table v)(fresh v \<mapsto> \<lparr>device = None, live = False\<rparr>),
                fresh := Suc (fresh v)\<rparr>)"

text \<open>Modelled from the spec: a device opens on a grabber when it is enumerated.\<close>

definition sim_open :: "sim \<Rightarrow> hgrabber \<Rightarrow> string \<Rightarrow> int \<times> sim" where
  "sim_open v h name =
     (case lookup v h of
        None \<Rightarrow> (- 1, v)
      | Some g \<Rightarrow>
          (if name \<in> set (devices v)
           then (1, v\<lparr>table := (table v)(h \<mapsto> g\<lparr>device := Some name\<rparr>)\<rparr>)
           else (0, v)))"

definition sim_OpenDevByUniqueName :: "sim \<Rightarrow> hgrabber \<Rightarrow> string option \<Rightarrow> int \<times> sim" where
  "sim_OpenDevByUniqueName v h unique_name =
     (case unique_name of
        None \<Rightarrow> (0, v)
      | Some name \<Rightarrow> sim_open v h name)"

definition sim_GetDeviceCount :: "sim \<Rightarrow> int" where
  "sim_GetDeviceCount v = int (length (devices v))"

definition sim_GetUniqueNamefromList :: "sim \<Rightarrow> int \<Rightarrow> string option" where
  "sim_GetUniqueNamefromList v i =
     (if 0 \<le> i \<and> i < int (length (devices v)) then Some (devices v ! nat i) else None)"

text \<open>
  Modelled from the spec: the selection dialog is the external disambiguation. Called
  without a grabber it creates one; the device the operator picks is opened on it, and
  none is when the operator cancels.
\<close>

definition sim_ShowDeviceSelectionDialog :: "sim \<Rightarrow> hgrabber option \<Rightarrow> hgrabber \<times> sim" where
  "sim_ShowDeviceSelectionDialog v hopt =
     (let v1 = v\<lparr>dialogs_shown := Suc (dialogs_shown v)\<rparr>;
          (h, v2) = (case hopt of None \<Rightarrow> sim_CreateGrabber v1 | Some h0 \<Rightarrow> (h0, v1))
      in case operator_choice v2 of
           None \<Rightarrow> (h, v2)
         | Some i \<Rightarrow>
             (if i < length (devices v2) then (h, snd (sim_open v2 h (devices v2 ! i)))
              else (h, v2)))"

definition sim_GetDeviceName :: "sim \<Rightarrow> hgrabber \<Rightarrow> string option" where
  "sim_GetDeviceName v h =
     (case lookup v h of
        None \<Rightarrow> None
      | Some g \<Rightarrow> device g)"

text \<open>
  Modelled from the spec: loading reports file-not-found, wrong XML format,
  incompatible XML or device-not-found, and otherwise applies the file: it opens the
  device the file names when asked to, and only updates settings when not.
\<close>

definition sim_LoadDeviceStateFromFileEx :: "sim \<Rightarrow> hgrabber \<Rightarrow> string \<Rightarrow> bool \<Rightarrow> int \<times> sim" where
  "sim_LoadDeviceStateFromFileEx v h path open_device_flag =
     (case files v path of
        None \<Rightarrow> (IC_FILE_NOT_FOUND tisgrabber, v)
      | Some Malformed \<Rightarrow> (IC_WRONG_XML_FORMAT tisgrabber, v)
      | Some Incompatible \<Rightarrow> (IC_WRONG_INCOMPATIBLE_XML tisgrabber, v)
      | Some (Device_state name) \<Rightarrow>
          (if open_device_flag then
             (if name \<in> set (devices v) \<and> lookup v h \<noteq> None
              then (IC_SUCCESS tisgrabber, snd (sim_open v h name))
              else (IC_DEVICE_NOT_FOUND tisgrabber, v))
           else if sim_IsDevValid v h \<noteq> 0 then (IC_SUCCESS tisgrabber, v)
           else (- 2, v)))"

text \<open>
  Modelled from the spec: saving serialises the settings of the open device to the
  path, and fails when no valid device is held.
\<close>

definition sim_SaveDeviceStateToFile :: "sim \<Rightarrow> hgrabber \<Rightarrow> string \<Rightarrow> int \<times> sim" where
  "sim_SaveDeviceStateToFile v h path =
     (case sim_GetDeviceName v h of
        None \<Rightarrow> (- 2, v)
      | Some name \<Rightarrow> (IC_SUCCESS tisgrabber, v\<lparr>files := (files v)(path \<mapsto> Device_state name)\<rparr>))"

definition sim_set_live :: "bool \<Rightarrow> sim \<Rightarrow> hgrabber \<Rightarrow> int \<times> sim" where
  "sim_set_live b v h =
     (case lookup v h of
        None \<Rightarrow> (- 1, v)
      | Some g \<Rightarrow>
          (if device g = None then (0, v)
           else (1, v\<lparr>table := (table v)(h \<mapsto> g\<lparr>live := b\<rparr>)\<rparr>)))"

text \<open>
  Modelled from the spec: releasing removes the grabber from the table and clears the
  caller's handle, which is passed by reference.
\<close>

definition sim_ReleaseGrabber :: "sim \<Rightarrow> hgrabber \<Rightarrow> hgrabber \<times> sim" where
  "sim_ReleaseGrabber v h = (0, v\<lparr>table := (table v)(h := None)\<rparr>)"

definition sim_GetImageDescription :: "sim \<Rightarrow> hgrabber \<Rightarrow> descr \<Rightarrow> descr" where
  "sim_GetImageDescription v h d = (if sim_IsDevValid v h \<noteq> 0 then video_format v else d)"

definition sim_lib :: "sim ic_lib" where
  "sim_lib =
     \<lparr>IC_InitLibrary = (\<lambda>v n. (1, v)),
      IC_CreateGrabber = sim_CreateGrabber,
      IC_LoadDeviceStateFromFileEx = sim_LoadDeviceStateFromFileEx,
      IC_IsDevValid = sim_IsDevValid,
      IC_GetDeviceCount = sim_GetDeviceCount,
      IC_ShowDeviceSelectionDialog = sim_ShowDeviceSelectionDialog,
      IC_GetUniqueNamefromList = sim_GetUniqueNamefromList,
      IC_OpenDevByUniqueName = sim_OpenDevByUniqueName,
      IC_GetDeviceName = sim_GetDeviceName,
      IC_SetCallbacks = (\<lambda>v h. (1, v)),
      IC_CreateFrameFilter = (\<lambda>v name. (1, v)),
      IC_AddFrameFilterToDevice = (\<lambda>v h f. (1, v)),
      IC_FrameFilterSetParameterBoolean = (\<lambda>v f name b. (1, v)),
      IC_StartLive = (\<lambda>v h create_window. sim_set_live True v h),
      IC_GetImageDescription = sim_GetImageDescription,
      IC_SnapImage = (\<lambda>v h timeout. (snap_status v, v)),
      IC_GetImagePtr = (\<lambda>v h. image_ptr v),
      IC_StopLive = sim_set_live False,
      IC_ReleaseGrabber = sim_ReleaseGrabber,
      IC_ShowPropertyDialog = (\<lambda>v h. (1, v)),
      IC_printItemandElementNames = (\<lambda>v h. (1, v)),
      IC_SaveDeviceStateToFile = sim_SaveDeviceStateToFile\<rparr>"

text \<open>
  A desk with cameras \<open>cams\<close> plugged in, no configuration files, an operator who
  picks the first camera when asked, and a camera delivering 640 by 480 frames of 24
  bits per pixel at address 4096.
\<close>

definition desk :: "string list \<Rightarrow> sim" where
  "desk cams =
     \<lparr>table = Map.empty, fresh = 1, devices = cams, files = Map.empty,
      operator_choice = Some 0, dialogs_shown = 0, snap_status = 1,
      image_ptr = Some 4096, video_format = (640, 480, 24, 0)\<rparr>"

section \<open>The cached geometry\<close>

text \<open>
  What \<^verbatim>\<open>_get_image_description\<close> leaves in the session: the channel count and the
  buffer size agree with the width, height and bit depth read last.
\<close>

definition geometry_cached :: "session \<Rightarrow> bool" where
  "geometry_cached s =
     (m_channel s = int_truediv8 (sint (m_bits_per_pixel s))
      \<and> m_buffer_size s = sint (m_width s) * sint (m_height s) * sint (m_bits_per_pixel s))"

definition same_geometry :: "session \<Rightarrow> session \<Rightarrow> bool" where
  "same_geometry s t =
     (m_width t = m_width s \<and> m_height t = m_height s
      \<and> m_bits_per_pixel t = m_bits_per_pixel s
      \<and> m_channel t = m_channel s \<and> m_buffer_size t = m_buffer_size s)"

section \<open>What a call lets its caller see\<close>

text \<open>
  A method that returns nothing can tell its caller of a failure in two ways: by
  raising, or through the logger. \<open>surfaced\<close> is what a call gave back together with
  the records it logged; \<open>reports_failure\<close> holds when either differs from a silent
  return.
\<close>

definition surfaced :: "'a outcome \<times> 'v world \<Rightarrow> 'v world \<Rightarrow> 'a outcome \<times> log_record list" where
  "surfaced rw w = (fst rw, drop (length (logged w)) (logged (snd rw)))"

definition reports_failure :: "unit outcome \<times> 'v world \<Rightarrow> 'v world \<Rightarrow> bool" where
  "reports_failure rw w = (\<not> (fst rw = Returned () \<and> logged (snd rw) = logged w))"

section \<open>Sessions on the desk\<close>

text \<open>
  Sessions constructed with no configuration path on a desk with one camera, with two
  cameras and with none; the last one again after a camera has been plugged in; and
  the first with a cabinet of configuration files, or with a camera that has no image
  to hand out.
\<close>

definition one_camera :: "sim world" where
  "one_camera = snd (init sim_lib tisgrabber (desk [''cam0'']) '''' True)"

definition two_cameras :: "sim world" where
  "two_cameras = snd (init sim_lib tisgrabber (desk [''cam0'', ''cam1'']) '''' True)"

definition no_camera :: "sim world" where
  "no_camera = snd (init sim_lib tisgrabber (desk []) '''' True)"

definition plugged_in :: "sim world" where
  "plugged_in = no_camera\<lparr>dll := (dll no_camera)\<lparr>devices := [''cam0'']\<rparr>\<rparr>"

definition cabinet :: "sim world" where
  "cabinet = one_camera\<lparr>dll := (dll one_camera)
     \<lparr>files := [''broken.xml'' \<mapsto> Malformed, ''other.xml'' \<mapsto> Device_state ''cam9'']\<rparr>\<rparr>"

definition no_image :: "sim world" where
  "no_image = one_camera\<lparr>dll := (dll one_camera)\<lparr>image_ptr := None\<rparr>\<rparr>"

section \<open>When the selection dialog is not needed\<close>

text \<open>
  \<^verbatim>\<open>open_device\<close> on grabber \<open>h\<close> with path \<open>p\<close> gets by without the selection dialog
  when the configuration file has opened the device, or at most one camera is
  enumerated once the file has been tried.
\<close>

definition no_dialog_needed :: "'v ic_lib \<Rightarrow> 'v \<Rightarrow> hgrabber \<Rightarrow> string \<Rightarrow> bool" where
  "no_dialog_needed ic v h p =
     (IC_IsDevValid ic (snd (IC_LoadDeviceStateFromFileEx ic v h p True)) h \<noteq> 0
      \<or> IC_GetDeviceCount ic (snd (IC_LoadDeviceStateFromFileEx ic v h p True)) \<le> 1)"

section \<open>Unfolding the methods and the library\<close>

lemmas method_defs = read_def load_properties_def select_device_def setup_device_def
  open_device_def get_image_description_def start_def release_def show_property_dialog_def
  list_available_properties_def save_properties_def flip_image_def init_def emit_def
  handle_device_open_error_def deviceLostCallback_def

lemmas sim_defs = sim_lib_def sim_IsDevValid_def sim_CreateGrabber_def sim_open_def
  sim_OpenDevByUniqueName_def sim_GetDeviceCount_def sim_GetUniqueNamefromList_def
  sim_ShowDeviceSelectionDialog_def sim_GetDeviceName_def sim_LoadDeviceStateFromFileEx_def
  sim_SaveDeviceStateToFile_def sim_set_live_def sim_ReleaseGrabber_def
  sim_GetImageDescription_def lookup_def tisgrabber_def desk_def


text \<open>The sessions on the desk, evaluated.\<close>

lemma one_camera_eq:
  "one_camera =
     \<lparr>self = \<lparr>m_width = 640, m_height = 480, m_bits_per_pixel = 24, m_color_format = 0,
               m_channel = 3, m_buffer_size = 7372800, IC_MsgBox_show = True,
               userdata = \<lparr>unsused = '''', devicename = ''cam0'', connected = True\<rparr>,
               m_hGrabber = 1\<rparr>,
      dll = \<lparr>table = [1 \<mapsto> \<lparr>device = Some ''cam0'', live = True\<rparr>], fresh = 2,
              devices = [''cam0''], files = Map.empty, operator_choice = Some 0,
              dialogs_shown = 0, snap_status = 1, image_ptr = Some 4096,
              video_format = (640, 480, 24, 0)\<rparr>,
      logged = [(ERROR, ''Can not load config''), (INFO, ''Device cam0 open'')]\<rparr>"
  by (simp add: one_camera_def method_defs sim_defs int_truediv8_def Let_def)

lemma no_camera_eq:
  "no_camera =
     \<lparr>self = \<lparr>m_width = 0, m_height = 0, m_bits_per_pixel = 0, m_color_format = 0,
               m_channel = 0, m_buffer_size = 0, IC_MsgBox_show = True,
               userdata = \<lparr>unsused = '''', devicename = '''', connected = False\<rparr>,
               m_hGrabber = 1\<rparr>,
      dll = \<lparr>table = [1 \<mapsto> \<lparr>device = None, live = False\<rparr>], fresh = 2,
              devices = [], files = Map.empty, operator_choice = Some 0,
              dialogs_shown = 0, snap_status = 1, image_ptr = Some 4096,
              video_format = (640, 480, 24, 0)\<rparr>,
      logged = [(ERROR, ''Can not load config''), (INFO, ''No device opened'')]\<rparr>"
  by (simp add: no_camera_def method_defs sim_defs int_truediv8_def Let_def)

lemma two_cameras_eq:
  "two_cameras =
     \<lparr>self = \<lparr>m_width = 640, m_height = 480, m_bits_per_pixel = 24, m_color_format = 0,
               m_channel = 3, m_buffer_size = 7372800, IC_MsgBox_show = True,
               userdata = \<lparr>unsused = '''', devicename = ''cam0'', connected = True\<rparr>,
               m_hGrabber = 2\<rparr>,
      dll = \<lparr>table = [1 \<mapsto> \<lparr>device = None, live = False\<rparr>,
                       2 \<mapsto> \<lparr>device = Some ''cam0'', live = True\<rparr>], fresh = 3,
              devices = [''cam0'', ''cam1''], files = Map.empty, operator_choice = Some 0,
              dialogs_shown = 1, snap_status = 1, image_ptr = Some 4096,
              video_format = (640, 480, 24, 0)\<rparr>,
      logged = [(ERROR, ''Can not load config''), (INFO, ''Device cam0 open'')]\<rparr>"
  by (simp add: two_cameras_def method_defs sim_defs int_truediv8_def Let_def numeral_2_eq_2)

lemma plugged_in_eq:
  "plugged_in =
     \<lparr>self = \<lparr>m_width = 0, m_height = 0, m_bits_per_pixel = 0, m_color_format = 0,
               m_channel = 0, m_buffer_size = 0, IC_MsgBox_show = True,
               userdata = \<lparr>unsused = '''', devicename = '''', connected = False\<rparr>,
               m_hGrabber = 1\<rparr>,
      dll = \<lparr>table = [1 \<mapsto> \<lparr>device = None, live = False\<rparr>], fresh = 2,
              devices = [''cam0''], files = Map.empty, operator_choice = Some 0,
              dialogs_shown = 0, snap_status = 1, image_ptr = Some 4096,
              video_format = (640, 480, 24, 0)\<rparr>,
      logged = [(ERROR, ''Can not load config''), (INFO, ''No device opened'')]\<rparr>"
  by (simp add: plugged_in_def no_camera_eq)

section \<open>What the session guarantees\<close>

subsection \<open>The length of a frame\<close>

lemma get_image_description_caches: "geometry_cached (self (snd (get_image_description ic w)))"
  by (simp add: get_image_description_def geometry_cached_def Let_def split: prod.splits)

lemma start_caches: "geometry_cached (self (snd (start ic w b)))"
  by (simp add: start_def get_image_description_caches split: prod.splits)

lemma read_keeps_self: "self (snd (read ic tis w)) = self w"
  by (simp add: read_def emit_def Let_def split: prod.splits option.splits sum.splits)

lemma load_properties_keeps_self: "self (snd (load_properties ic tis w p b)) = self w"
  by (simp add: load_properties_def emit_def Let_def split: prod.splits)

lemma select_device_keeps_self: "self (snd (select_device ic w)) = self w"
  by (simp add: select_device_def Let_def split: prod.splits)

lemma setup_device_geometry: "same_geometry (self w) (self (snd (setup_device ic w)))"
  by (simp add: setup_device_def same_geometry_def Let_def split: prod.splits option.splits)

lemma open_device_geometry: "same_geometry (self w) (self (snd (open_device ic tis w p)))"
proof -
  obtain r w1 where l: "load_properties ic tis w p True = (r, w1)" by force
  have s1: "self w1 = self w" using load_properties_keeps_self [of ic tis w p True] l by simp
  define w2 where "w2 = (if IC_IsDevValid ic (dll w1) (m_hGrabber (self w1)) = 0 then
                  (let (h, w') = select_device ic w1
                   in w'\<lparr>self := (self w')\<lparr>m_hGrabber := h\<rparr>\<rparr>)
                else w1)"
  obtain h w' where sel: "select_device ic w1 = (h, w')" by force
  have "self w' = self w" using s1 select_device_keeps_self [of ic w1] sel by simp
  then have s2: "same_geometry (self w) (self w2)"
    using s1 sel by (simp add: w2_def same_geometry_def)
  have s3: "same_geometry (self w2) (self (snd (setup_device ic w2)))"
    by (rule setup_device_geometry)
  have "self (snd (open_device ic tis w p)) = self w2
      \<or> self (snd (open_device ic tis w p)) = self (snd (setup_device ic w2))"
    using l
    by (simp add: open_device_def w2_def [symmetric] emit_def handle_device_open_error_def
          split: prod.splits outcome.splits)
  then show ?thesis using s2 s3 by (auto simp: same_geometry_def)
qed

lemma release_geometry: "same_geometry (self w) (self (snd (release ic w)))"
  by (simp add: release_def same_geometry_def Let_def split: prod.splits)

lemma geometry_cached_cong: "same_geometry s t \<Longrightarrow> geometry_cached s \<Longrightarrow> geometry_cached t"
  by (simp add: same_geometry_def geometry_cached_def)

lemma call_keeps_geometry:
  assumes g: "geometry_cached (self w)"
  shows "geometry_cached (self (snd (call ic tis a w)))"
proof (cases a)
  case Read
  with g show ?thesis by (simp add: returning_def read_keeps_self)
next
  case (Open_device p)
  with g show ?thesis
    using geometry_cached_cong [OF open_device_geometry] by (simp add: returning_def)
next
  case (Load_properties p b)
  with g show ?thesis by (simp add: returning_def load_properties_keeps_self)
next
  case (Start b)
  then show ?thesis by (simp add: returning_def start_caches)
next
  case Release
  with g show ?thesis
    using geometry_cached_cong [OF release_geometry] by (simp add: returning_def)
next
  case Show_property_dialog
  with g show ?thesis
    by (simp add: returning_def show_property_dialog_def split: prod.splits)
next
  case List_available_properties
  with g show ?thesis
    by (simp add: returning_def list_available_properties_def split: prod.splits)
next
  case (Save_properties p)
  with g show ?thesis by (simp add: returning_def save_properties_def split: prod.splits)
qed

lemma step_keeps_geometry:
  assumes g: "geometry_cached (self w)"
  shows "geometry_cached (self (snd (step ic tis e w)))"
proof (cases e)
  case (Call a)
  then show ?thesis using call_keeps_geometry [OF g] by simp
next
  case DeviceLost
  with g show ?thesis by (simp add: geometry_cached_def deviceLostCallback_def Let_def)
next
  case (Vendor v')
  with g show ?thesis by simp
qed

lemma run_keeps_geometry:
  "geometry_cached (self w) \<Longrightarrow> geometry_cached (self (run ic tis es w))"
  by (induction es arbitrary: w) (simp_all add: step_keeps_geometry)

lemma np_ndarray_shape:
  "np_ndarray p n dims = Inr a \<Longrightarrow> nd_shape a = dims \<and> nbytes a \<le> n"
  by (auto simp: np_ndarray_def nbytes_def split: if_splits)

lemma read_frame_shape:
  assumes "read ic tis w = (Returned (Some (flag, Some frame)), w')"
  shows "nd_shape frame = [sint (m_height (self w)), sint (m_width (self w)), m_channel (self w)]
       \<and> nbytes frame \<le> m_buffer_size (self w)"
  using assms
  by (auto simp: read_def Let_def c_ubyte_array_def
      split: prod.splits option.splits sum.splits if_splits dest!: np_ndarray_shape)

text \<open>
  Claim C1. Once \<^verbatim>\<open>start\<close> has run, whatever happens to the session afterwards, a
  \<^verbatim>\<open>read\<close> that returns the pair \<open>(True, frame)\<close> returns a frame of exactly
  width times height times channel bytes, the channel count being the cached one, the
  bit depth divided by 8; and the frame lies within the buffer the session sized, so it
  is not a partial view.
\<close>

theorem read_frame_length:
  assumes "w = run ic tis es (snd (start ic w0 create_window))"
      and "read ic tis w = (Returned (Some (True, Some frame)), w')"
  shows "nbytes frame = width (self w) * height (self w) * m_channel (self w)
       \<and> m_channel (self w) = int_truediv8 (sint (m_bits_per_pixel (self w)))
       \<and> nbytes frame \<le> m_buffer_size (self w)"
proof -
  have g: "geometry_cached (self w)"
    using assms(1) run_keeps_geometry [OF start_caches] by simp
  have sh: "nd_shape frame = [sint (m_height (self w)), sint (m_width (self w)), m_channel (self w)]"
    and le: "nbytes frame \<le> m_buffer_size (self w)"
    using read_frame_shape [OF assms(2)] by simp_all
  have "nbytes frame = width (self w) * height (self w) * m_channel (self w)"
    using sh by (simp add: nbytes_def width_def height_def itemsize_uint8_def)
  then show ?thesis using g le by (simp add: geometry_cached_def)
qed

subsection \<open>A frame on the desk\<close>

theorem read_frame_length_witness:
  "read sim_lib tisgrabber
     (run sim_lib tisgrabber [Call (Load_properties ''missing.xml'' False), DeviceLost,
        Call (Open_device '''')] (snd (start sim_lib one_camera False)))
     = (Returned (Some (True, Some \<lparr>nd_buffer = 4096, nd_shape = [480, 640, 3]\<rparr>)),
        run sim_lib tisgrabber [Call (Load_properties ''missing.xml'' False), DeviceLost,
        Call (Open_device '''')] (snd (start sim_lib one_camera False)))
   \<and> nbytes \<lparr>nd_buffer = 4096, nd_shape = [480, 640, 3]\<rparr> = 921600
   \<and> width (self (run sim_lib tisgrabber [Call (Load_properties ''missing.xml'' False), DeviceLost,
        Call (Open_device '''')] (snd (start sim_lib one_camera False)))) = 640
   \<and> height (self (run sim_lib tisgrabber [Call (Load_properties ''missing.xml'' False), DeviceLost,
        Call (Open_device '''')] (snd (start sim_lib one_camera False)))) = 480
   \<and> m_channel (self (run sim_lib tisgrabber [Call (Load_properties ''missing.xml'' False),
        DeviceLost, Call (Open_device '''')] (snd (start sim_lib one_camera False)))) = 3"
proof -
  define W where "W = run sim_lib tisgrabber [Call (Load_properties ''missing.xml'' False),
        DeviceLost, Call (Open_device '''')] (snd (start sim_lib one_camera False))"
  have st: "snd (start sim_lib one_camera False) = one_camera"
    by (simp add: one_camera_eq start_def get_image_description_def sim_defs int_truediv8_def)
  have W: "W = one_camera\<lparr>logged := logged one_camera @
        [(ERROR, ''Can not load config''), (ERROR, ''Device cam0 lost''),
         (ERROR, ''Can not load config''), (INFO, ''Device cam0 open'')]\<rparr>"
    unfolding W_def st
    by (simp add: one_camera_eq returning_def method_defs sim_defs)
  have r: "read sim_lib tisgrabber W
       = (Returned (Some (True, Some \<lparr>nd_buffer = 4096, nd_shape = [480, 640, 3]\<rparr>)), W)"
    unfolding W
    by (simp add: one_camera_eq read_def sim_lib_def
          c_ubyte_array_def np_ndarray_def itemsize_uint8_def tisgrabber_def)
  have n: "nbytes \<lparr>nd_buffer = 4096, nd_shape = [480, 640, 3]\<rparr> = 921600"
    by (simp add: nbytes_def itemsize_uint8_def)
  have g: "width (self W) = 640 \<and> height (self W) = 480 \<and> m_channel (self W) = 3"
    unfolding W by (simp add: one_camera_eq width_def height_def)
  show ?thesis
    using read_frame_length [OF W_def r] r n g unfolding W_def by simp
qed

subsection \<open>Releasing twice\<close>

text \<open>
  Claim C2. \<^verbatim>\<open>release\<close> called twice in succession returns normally both times,
  the second call changes nothing, and the handle the session is left with is not
  valid. What the library must do for this is stated as the hypothesis: a handle that
  \<^verbatim>\<open>IC_ReleaseGrabber\<close> has released is not valid.
\<close>

theorem release_twice:
  assumes inv: "\<And>v h. IC_IsDevValid ic (snd (IC_ReleaseGrabber ic v h))
                          (fst (IC_ReleaseGrabber ic v h)) = 0"
  shows "fst (release ic w) = Returned ()
       \<and> fst (release ic (snd (release ic w))) = Returned ()
       \<and> snd (release ic (snd (release ic w))) = snd (release ic w)
       \<and> IC_IsDevValid ic (dll (snd (release ic (snd (release ic w)))))
            (m_hGrabber (self (snd (release ic (snd (release ic w)))))) = 0"
proof -
  have once: "fst (release ic u) = Returned ()" for u
    by (simp add: release_def Let_def split: prod.splits)
  have gone: "IC_IsDevValid ic (dll (snd (release ic w))) (m_hGrabber (self (snd (release ic w)))) = 0"
  proof (cases "IC_IsDevValid ic (dll w) (m_hGrabber (self w)) = 0")
    case True
    then show ?thesis by (simp add: release_def)
  next
    case False
    obtain st v1 where a: "IC_StopLive ic (dll w) (m_hGrabber (self w)) = (st, v1)" by force
    show ?thesis using False a inv [of v1 "m_hGrabber (self w)"]
      by (auto simp: release_def Let_def split: prod.splits)
  qed
  then have again: "snd (release ic (snd (release ic w))) = snd (release ic w)"
    by (simp add: release_def [of ic "snd (release ic w)"])
  show ?thesis using once gone again by simp
qed

lemma sim_release_invalid:
  "IC_IsDevValid sim_lib (snd (IC_ReleaseGrabber sim_lib v h))
     (fst (IC_ReleaseGrabber sim_lib v h)) = 0"
  by (simp add: sim_lib_def sim_ReleaseGrabber_def sim_IsDevValid_def lookup_def)

theorem release_twice_witness:
  "IC_IsDevValid sim_lib (dll one_camera) (m_hGrabber (self one_camera)) = 1
   \<and> fst (release sim_lib one_camera) = Returned ()
   \<and> fst (release sim_lib (snd (release sim_lib one_camera))) = Returned ()
   \<and> snd (release sim_lib (snd (release sim_lib one_camera))) = snd (release sim_lib one_camera)
   \<and> IC_IsDevValid sim_lib (dll (snd (release sim_lib (snd (release sim_lib one_camera)))))
        (m_hGrabber (self (snd (release sim_lib (snd (release sim_lib one_camera)))))) = 0
   \<and> m_hGrabber (self (snd (release sim_lib one_camera))) = 0"
proof -
  have v: "IC_IsDevValid sim_lib (dll one_camera) (m_hGrabber (self one_camera)) = 1"
    by (simp add: one_camera_eq sim_defs)
  have h: "m_hGrabber (self (snd (release sim_lib one_camera))) = 0"
    by (simp add: one_camera_eq release_def sim_defs)
  show ?thesis
    using release_twice [of sim_lib one_camera, OF sim_release_invalid] v h by blast
qed

subsection \<open>A null image pointer\<close>

text \<open>
  Claim C3, as the code has it. When the snap succeeds and the image pointer is null,
  \<^verbatim>\<open>read\<close> logs the warning and then falls off its end: it returns \<open>None\<close>, not
  the pair of the connected flag and \<open>None\<close> that its docstring and the claim give.
\<close>

theorem read_null_image_returns_nothing:
  assumes "IC_SnapImage ic (dll w) (m_hGrabber (self w)) (- 1) = (IC_SUCCESS tis, v1)"
      and "IC_GetImagePtr ic v1 (m_hGrabber (self w)) = None"
  shows "read ic tis w = (Returned None, emit WARNING ''No device found.'' (w\<lparr>dll := v1\<rparr>))
       \<and> fst (read ic tis w) \<noteq> Returned (Some (connected (userdata (self w)), None))"
  using assms by (simp add: read_def)

theorem read_null_image_witness:
  "IC_SnapImage sim_lib (dll no_image) (m_hGrabber (self no_image)) (- 1)
     = (IC_SUCCESS tisgrabber, dll no_image)
   \<and> IC_GetImagePtr sim_lib (dll no_image) (m_hGrabber (self no_image)) = None
   \<and> read sim_lib tisgrabber no_image
       = (Returned None, emit WARNING ''No device found.'' no_image)"
proof -
  have a: "IC_SnapImage sim_lib (dll no_image) (m_hGrabber (self no_image)) (- 1)
     = (IC_SUCCESS tisgrabber, dll no_image)"
    by (simp add: no_image_def one_camera_eq sim_defs)
  have b: "IC_GetImagePtr sim_lib (dll no_image) (m_hGrabber (self no_image)) = None"
    by (simp add: no_image_def one_camera_eq sim_defs)
  show ?thesis using read_null_image_returns_nothing [OF a b] a b by simp
qed

subsection \<open>Loading a configuration\<close>

text \<open>
  Claim C4, amended. When the library reports that the file is not found,
  \<^verbatim>\<open>load_properties\<close> leaves the session as it was (so the connected flag and the
  device name too), returns nothing, and logs exactly one record, the error
  \<open>Can not load config\<close>. It logs that same record when the library reports a device
  not found, a wrong XML format or an incompatible XML: no error class of its own is
  surfaced for the missing file.
\<close>

theorem load_properties_one_diagnostic:
  assumes "fst (IC_LoadDeviceStateFromFileEx ic (dll w) (m_hGrabber (self w)) p b)
             \<in> {IC_FILE_NOT_FOUND tis, IC_DEVICE_NOT_FOUND tis, IC_WRONG_XML_FORMAT tis,
                 IC_WRONG_INCOMPATIBLE_XML tis}"
  shows "self (snd (load_properties ic tis w p b)) = self w
       \<and> surfaced (load_properties ic tis w p b) w
           = (Returned (), [(ERROR, ''Can not load config'')])"
  using assms
  by (auto simp: load_properties_def surfaced_def emit_def Let_def split: prod.splits)

lemma cabinet_eq:
  "cabinet =
     \<lparr>self = \<lparr>m_width = 640, m_height = 480, m_bits_per_pixel = 24, m_color_format = 0,
               m_channel = 3, m_buffer_size = 7372800, IC_MsgBox_show = True,
               userdata = \<lparr>unsused = '''', devicename = ''cam0'', connected = True\<rparr>,
               m_hGrabber = 1\<rparr>,
      dll = \<lparr>table = [1 \<mapsto> \<lparr>device = Some ''cam0'', live = True\<rparr>], fresh = 2,
              devices = [''cam0''],
              files = [''broken.xml'' \<mapsto> Malformed, ''other.xml'' \<mapsto> Device_state ''cam9''],
              operator_choice = Some 0,
              dialogs_shown = 0, snap_status = 1, image_ptr = Some 4096,
              video_format = (640, 480, 24, 0)\<rparr>,
      logged = [(ERROR, ''Can not load config''), (INFO, ''Device cam0 open'')]\<rparr>"
  by (simp add: cabinet_def one_camera_eq)

theorem load_properties_same_for_all_counterexample:
  "surfaced (load_properties sim_lib tisgrabber cabinet ''missing.xml'' False) cabinet
     = surfaced (load_properties sim_lib tisgrabber cabinet ''broken.xml'' False) cabinet
   \<and> surfaced (load_properties sim_lib tisgrabber cabinet ''missing.xml'' True) cabinet
     = surfaced (load_properties sim_lib tisgrabber cabinet ''other.xml'' True) cabinet
   \<and> fst (IC_LoadDeviceStateFromFileEx sim_lib (dll cabinet) (m_hGrabber (self cabinet))
        ''missing.xml'' True) = IC_FILE_NOT_FOUND tisgrabber
   \<and> fst (IC_LoadDeviceStateFromFileEx sim_lib (dll cabinet) (m_hGrabber (self cabinet))
        ''broken.xml'' False) = IC_WRONG_XML_FORMAT tisgrabber
   \<and> fst (IC_LoadDeviceStateFromFileEx sim_lib (dll cabinet) (m_hGrabber (self cabinet))
        ''other.xml'' True) = IC_DEVICE_NOT_FOUND tisgrabber"
  by (simp add: cabinet_eq load_properties_def surfaced_def emit_def sim_defs)

theorem load_properties_one_diagnostic_witness:
  "fst (IC_LoadDeviceStateFromFileEx sim_lib (dll cabinet) (m_hGrabber (self cabinet))
        ''missing.xml'' False) = IC_FILE_NOT_FOUND tisgrabber
   \<and> self (snd (load_properties sim_lib tisgrabber cabinet ''missing.xml'' False)) = self cabinet
   \<and> surfaced (load_properties sim_lib tisgrabber cabinet ''missing.xml'' False) cabinet
       = (Returned (), [(ERROR, ''Can not load config'')])"
proof -
  have a: "fst (IC_LoadDeviceStateFromFileEx sim_lib (dll cabinet) (m_hGrabber (self cabinet))
        ''missing.xml'' False) = IC_FILE_NOT_FOUND tisgrabber"
    by (simp add: cabinet_eq sim_defs)
  then have "fst (IC_LoadDeviceStateFromFileEx sim_lib (dll cabinet) (m_hGrabber (self cabinet))
        ''missing.xml'' False)
             \<in> {IC_FILE_NOT_FOUND tisgrabber, IC_DEVICE_NOT_FOUND tisgrabber,
                 IC_WRONG_XML_FORMAT tisgrabber, IC_WRONG_INCOMPATIBLE_XML tisgrabber}"
    by simp
  from load_properties_one_diagnostic [OF this] a show ?thesis by simp
qed

subsection \<open>Saving a configuration\<close>

text \<open>
  Claim C9, amended. \<^verbatim>\<open>save_properties\<close> hands the path to the library and drops
  the status it gets back: it returns nothing, raises nothing and logs nothing,
  whether the session holds a valid device or not.
\<close>

theorem save_properties_silent:
  "fst (save_properties ic w p) = Returned ()
   \<and> \<not> reports_failure (save_properties ic w p) w
   \<and> self (snd (save_properties ic w p)) = self w
   \<and> dll (snd (save_properties ic w p))
       = snd (IC_SaveDeviceStateToFile ic (dll w) (m_hGrabber (self w)) p)"
  by (simp add: save_properties_def reports_failure_def Let_def split: prod.splits)

theorem save_properties_no_device_counterexample:
  "IC_IsDevValid sim_lib (dll no_camera) (m_hGrabber (self no_camera)) = 0
   \<and> fst (IC_SaveDeviceStateToFile sim_lib (dll no_camera) (m_hGrabber (self no_camera))
            ''camera.xml'') = - 2
   \<and> save_properties sim_lib no_camera ''camera.xml'' = (Returned (), no_camera)
   \<and> \<not> reports_failure (save_properties sim_lib no_camera ''camera.xml'') no_camera"
  by (simp add: no_camera_eq save_properties_def reports_failure_def sim_defs)

subsection \<open>The connected flag\<close>

lemma setup_device_cases:
  "(fst (setup_device ic w) = Raised AttributeError \<and> snd (setup_device ic w) = w)
   \<or> (fst (setup_device ic w) = Returned () \<and> is_connected (snd (setup_device ic w)))"
  by (simp add: setup_device_def is_connected_def Let_def split: option.splits prod.splits)

lemma select_device_userdata: "userdata (self (snd (select_device ic w))) = userdata (self w)"
  by (simp add: select_device_def Let_def split: prod.splits)

lemma open_device_connects:
  assumes "\<not> is_connected w" and "is_connected (snd (open_device ic tis w p))"
  shows "fst (open_device ic tis w p) = Returned True"
proof -
  obtain r w1 where l: "load_properties ic tis w p True = (r, w1)" by force
  have s1: "self w1 = self w"
    using l by (auto simp: load_properties_def emit_def Let_def split: prod.splits if_splits)
  define w2 where "w2 = (if IC_IsDevValid ic (dll w1) (m_hGrabber (self w1)) = 0 then
                  (let (h, w') = select_device ic w1
                   in w'\<lparr>self := (self w')\<lparr>m_hGrabber := h\<rparr>\<rparr>)
                else w1)"
  have s2: "\<not> is_connected w2"
    using assms(1) s1 select_device_userdata [of ic w1]
    by (auto simp: w2_def is_connected_def Let_def split: prod.splits)
  show ?thesis
  proof (cases "IC_IsDevValid ic (dll w2) (m_hGrabber (self w2)) = 0")
    case True
    then have "snd (open_device ic tis w p) = handle_device_open_error w2"
      using l by (simp add: open_device_def w2_def [symmetric])
    then show ?thesis
      using s2 assms(2) by (simp add: handle_device_open_error_def emit_def is_connected_def)
  next
    case False
    obtain q w3 where su: "setup_device ic w2 = (q, w3)" by force
    from setup_device_cases [of ic w2] su
    have "(q = Raised AttributeError \<and> w3 = w2) \<or> (q = Returned () \<and> is_connected w3)"
      by simp
    then show ?thesis
    proof
      assume "q = Raised AttributeError \<and> w3 = w2"
      then have "snd (open_device ic tis w p) = w2"
        using l False su by (simp add: open_device_def w2_def [symmetric])
      then show ?thesis using s2 assms(2) by simp
    next
      assume "q = Returned () \<and> is_connected w3"
      then show ?thesis
        using l False su by (simp add: open_device_def w2_def [symmetric])
    qed
  qed
qed

lemma call_userdata:
  assumes "\<forall>p. a \<noteq> Open_device p"
  shows "userdata (self (snd (call ic tis a w))) = userdata (self w)"
  using assms
  by (cases a)
     (simp_all add: returning_def read_def load_properties_def start_def
        get_image_description_def release_def show_property_dialog_def
        list_available_properties_def save_properties_def emit_def Let_def
        split: prod.splits option.splits sum.splits)

lemma step_connects:
  assumes "\<not> is_connected w" and "is_connected (snd (step ic tis e w))"
  shows "successful_open (e, fst (step ic tis e w))"
proof (cases e)
  case (Call a)
  show ?thesis
  proof (cases "\<exists>p. a = Open_device p")
    case True
    then obtain p where a: "a = Open_device p" by blast
    have "fst (open_device ic tis w p) = Returned True"
      using assms Call a by (intro open_device_connects) (simp_all add: returning_def)
    then show ?thesis using Call a by (simp add: successful_open_def returning_def)
  next
    case False
    then have "userdata (self (snd (call ic tis a w))) = userdata (self w)"
      by (intro call_userdata) simp
    then show ?thesis using assms Call by (simp add: is_connected_def)
  qed
next
  case DeviceLost
  then show ?thesis using assms by (simp add: deviceLostCallback_def is_connected_def Let_def)
next
  case (Vendor v')
  then show ?thesis using assms by (simp add: is_connected_def)
qed

lemma run_connects:
  "\<not> is_connected w \<Longrightarrow> is_connected (run ic tis es w)
   \<Longrightarrow> list_ex successful_open (results ic tis es w)"
proof (induction es arbitrary: w)
  case Nil
  then show ?case by simp
next
  case (Cons e es)
  show ?case
  proof (cases "is_connected (snd (step ic tis e w))")
    case True
    then have "successful_open (e, fst (step ic tis e w))"
      using Cons.prems(1) by (rule step_connects [rotated])
    then show ?thesis by simp
  next
    case False
    then have "list_ex successful_open (results ic tis es (snd (step ic tis e w)))"
      using Cons.prems(2) by (intro Cons.IH) simp_all
    then show ?thesis by simp
  qed
qed

text \<open>
  Claim C6. The device-lost notification leaves the connected flag false, whatever it
  was; and over any sequence of calls, notifications and changes of the library's
  state, the flag is true at the end after being false at the start only if one of the
  steps was an \<^verbatim>\<open>open_device\<close> that returned \<open>True\<close>.
\<close>

theorem connected_rises_only_by_open:
  "\<not> is_connected (snd (step ic tis DeviceLost w))
   \<and> (\<not> is_connected w \<and> is_connected (run ic tis es w)
        \<longrightarrow> list_ex successful_open (results ic tis es w))"
  using run_connects [of w ic tis es]
  by (simp add: deviceLostCallback_def is_connected_def Let_def)

theorem connected_rises_only_by_open_witness:
  "is_connected one_camera
   \<and> \<not> is_connected (snd (step sim_lib tisgrabber DeviceLost one_camera))
   \<and> \<not> is_connected plugged_in
   \<and> is_connected (run sim_lib tisgrabber [Call Read, Call (Open_device ''''), Call Read] plugged_in)
   \<and> list_ex successful_open
        (results sim_lib tisgrabber [Call Read, Call (Open_device ''''), Call Read] plugged_in)"
proof -
  have a: "is_connected one_camera" by (simp add: one_camera_eq is_connected_def)
  have b: "\<not> is_connected plugged_in" by (simp add: plugged_in_eq is_connected_def)
  have c: "is_connected (run sim_lib tisgrabber [Call Read, Call (Open_device ''''), Call Read] plugged_in)"
    by (simp add: plugged_in_eq is_connected_def returning_def method_defs sim_defs
          c_ubyte_array_def np_ndarray_def itemsize_uint8_def)
  show ?thesis
    using connected_rises_only_by_open [of sim_lib tisgrabber one_camera]
      connected_rises_only_by_open [of sim_lib tisgrabber plugged_in
         "[Call Read, Call (Open_device ''''), Call Read]"] a b c
    by blast
qed

subsection \<open>Opening a device on the desk\<close>

lemma sim_lib_fields:
  "IC_LoadDeviceStateFromFileEx sim_lib = sim_LoadDeviceStateFromFileEx"
  "IC_IsDevValid sim_lib = sim_IsDevValid"
  "IC_GetDeviceCount sim_lib = sim_GetDeviceCount"
  "IC_ShowDeviceSelectionDialog sim_lib = sim_ShowDeviceSelectionDialog"
  "IC_GetUniqueNamefromList sim_lib = sim_GetUniqueNamefromList"
  "IC_OpenDevByUniqueName sim_lib = sim_OpenDevByUniqueName"
  "IC_GetDeviceName sim_lib = sim_GetDeviceName"
  "IC_SetCallbacks sim_lib = (\<lambda>v h. (1, v))"
  by (simp_all add: sim_lib_def)

lemma load_properties_world:
  "self (snd (load_properties ic tis w p b)) = self w
   \<and> dll (snd (load_properties ic tis w p b))
       = snd (IC_LoadDeviceStateFromFileEx ic (dll w) (m_hGrabber (self w)) p b)"
  by (simp add: load_properties_def emit_def Let_def split: prod.splits)

lemma sim_load_no_devices:
  "devices v = [] \<Longrightarrow> snd (sim_LoadDeviceStateFromFileEx v h p b) = v"
  by (simp add: sim_LoadDeviceStateFromFileEx_def split: option.splits cfg_file.splits)

lemma select_no_devices:
  "devices (dll w) = [] \<Longrightarrow> select_device sim_lib w = (m_hGrabber (self w), w)"
  by (simp add: select_device_def sim_lib_fields sim_GetDeviceCount_def
        sim_GetUniqueNamefromList_def sim_OpenDevByUniqueName_def)

lemma open_device_empty_desk:
  assumes "devices (dll w) = []"
      and "IC_IsDevValid sim_lib (dll w) (m_hGrabber (self w)) = 0"
  shows "fst (open_device sim_lib tisgrabber w p) = Returned False
       \<and> self (snd (open_device sim_lib tisgrabber w p)) = self w
       \<and> dll (snd (open_device sim_lib tisgrabber w p)) = dll w"
proof -
  obtain r w1 where l: "load_properties sim_lib tisgrabber w p True = (r, w1)" by force
  have s1: "self w1 = self w" and d1: "dll w1 = dll w"
    using load_properties_world [of sim_lib tisgrabber w p True] l assms(1)
    by (simp_all add: sim_lib_fields sim_load_no_devices)
  have sel: "select_device sim_lib w1 = (m_hGrabber (self w1), w1)"
    using assms(1) d1 by (simp add: select_no_devices)
  have v1: "IC_IsDevValid sim_lib (dll w1) (m_hGrabber (self w1)) = 0"
    using assms(2) s1 d1 by simp
  have "open_device sim_lib tisgrabber w p = (Returned False, handle_device_open_error w1)"
    using l sel v1 by (simp add: open_device_def)
  then show ?thesis
    using s1 d1 by (simp add: handle_device_open_error_def emit_def)
qed

text \<open>
  Claim C7. With no camera enumerated, \<^verbatim>\<open>open_device\<close> on a session that holds no
  valid device returns \<open>False\<close>, whatever the configuration path, and the handle the
  session is left with is not valid. No selection dialog is shown.
\<close>

theorem open_device_no_devices:
  assumes "devices (dll w) = []"
      and "IC_IsDevValid sim_lib (dll w) (m_hGrabber (self w)) = 0"
  shows "fst (open_device sim_lib tisgrabber w p) = Returned False
       \<and> IC_IsDevValid sim_lib (dll (snd (open_device sim_lib tisgrabber w p)))
            (m_hGrabber (self (snd (open_device sim_lib tisgrabber w p)))) = 0
       \<and> dialogs_shown (dll (snd (open_device sim_lib tisgrabber w p))) = dialogs_shown (dll w)"
  using open_device_empty_desk [OF assms, of p] assms(2) by simp

theorem open_device_no_devices_witness:
  "devices (dll no_camera) = []
   \<and> IC_IsDevValid sim_lib (dll no_camera) (m_hGrabber (self no_camera)) = 0
   \<and> fst (open_device sim_lib tisgrabber no_camera '''') = Returned False
   \<and> IC_IsDevValid sim_lib (dll (snd (open_device sim_lib tisgrabber no_camera '''')))
        (m_hGrabber (self (snd (open_device sim_lib tisgrabber no_camera '''')))) = 0"
proof -
  have a: "devices (dll no_camera) = []" by (simp add: no_camera_eq)
  have b: "IC_IsDevValid sim_lib (dll no_camera) (m_hGrabber (self no_camera)) = 0"
    by (simp add: no_camera_eq sim_defs)
  show ?thesis using open_device_no_devices [OF a b, of "''''"] a b by blast
qed

lemma sim_open_enumerated:
  "lookup v h = Some g \<Longrightarrow> name \<in> set (devices v)
   \<Longrightarrow> sim_open v h name = (1, v\<lparr>table := (table v)(h \<mapsto> g\<lparr>device := Some name\<rparr>)\<rparr>)"
  by (simp add: sim_open_def)

lemma sim_load_one_device:
  assumes "devices v = [d]" and "lookup v h = Some g"
  shows "snd (sim_LoadDeviceStateFromFileEx v h p True) = v
       \<or> snd (sim_LoadDeviceStateFromFileEx v h p True)
            = v\<lparr>table := (table v)(h \<mapsto> g\<lparr>device := Some d\<rparr>)\<rparr>"
  using assms
  by (simp add: sim_LoadDeviceStateFromFileEx_def sim_open_enumerated
        split: option.splits cfg_file.splits)

lemma select_one_device:
  assumes "devices (dll w) = [d]" and "lookup (dll w) (m_hGrabber (self w)) = Some g"
  shows "select_device sim_lib w
       = (m_hGrabber (self w),
          w\<lparr>dll := (dll w)\<lparr>table := (table (dll w))(m_hGrabber (self w) \<mapsto> g\<lparr>device := Some d\<rparr>)\<rparr>\<rparr>)"
  using assms
  by (simp add: select_device_def sim_lib_fields sim_GetDeviceCount_def
        sim_GetUniqueNamefromList_def sim_OpenDevByUniqueName_def sim_open_enumerated)

lemma open_device_single_camera:
  assumes "devices (dll w) = [d]"
      and "lookup (dll w) (m_hGrabber (self w)) = Some g"
      and "device g = None"
  shows "fst (open_device sim_lib tisgrabber w p) = Returned True
       \<and> self (snd (open_device sim_lib tisgrabber w p))
           = (self w)\<lparr>userdata := (userdata (self w))\<lparr>devicename := d, connected := True\<rparr>\<rparr>
       \<and> dll (snd (open_device sim_lib tisgrabber w p))
           = (dll w)\<lparr>table := (table (dll w))(m_hGrabber (self w) \<mapsto> g\<lparr>device := Some d\<rparr>)\<rparr>"
proof -
  define h where "h = m_hGrabber (self w)"
  define v' where "v' = (dll w)\<lparr>table := (table (dll w))(h \<mapsto> g\<lparr>device := Some d\<rparr>)\<rparr>"
  have h0: "h \<noteq> 0" using assms(2) by (auto simp: lookup_def h_def split: if_splits)
  have invalid: "sim_IsDevValid (dll w) h = 0"
    using assms(2,3) by (simp add: sim_IsDevValid_def h_def)
  have valid: "sim_IsDevValid v' h = 1" and name: "sim_GetDeviceName v' h = Some d"
    using h0 by (simp_all add: sim_IsDevValid_def sim_GetDeviceName_def lookup_def v'_def)
  obtain r w1 where l: "load_properties sim_lib tisgrabber w p True = (r, w1)" by force
  have s1: "self w1 = self w" and logs1: "dll w1 = dll w \<or> dll w1 = v'"
    using load_properties_world [of sim_lib tisgrabber w p True] l
      sim_load_one_device [OF assms(1,2), of p]
    by (auto simp: sim_lib_fields v'_def h_def)
  define w2 where "w2 = w1\<lparr>dll := v'\<rparr>"
  have sel: "IC_IsDevValid sim_lib (dll w1) (m_hGrabber (self w1)) = 0
      \<Longrightarrow> select_device sim_lib w1 = (m_hGrabber (self w1), w2)"
  proof -
    assume "IC_IsDevValid sim_lib (dll w1) (m_hGrabber (self w1)) = 0"
    then have "dll w1 = dll w" using logs1 valid s1 by (auto simp: sim_lib_fields h_def)
    then show ?thesis
      using select_one_device [of w1 d g] assms(1,2) s1 by (simp add: h_def v'_def w2_def)
  qed
  have keep: "IC_IsDevValid sim_lib (dll w1) (m_hGrabber (self w1)) \<noteq> 0 \<Longrightarrow> w1 = w2"
    using logs1 invalid s1 by (auto simp: sim_lib_fields h_def w2_def)
  have valid2: "IC_IsDevValid sim_lib (dll w2) (m_hGrabber (self w2)) = 1"
    using valid s1 by (simp add: w2_def sim_lib_fields h_def)
  define w3 where "w3 = w2\<lparr>self := (self w2)\<lparr>userdata :=
                          (userdata (self w2))\<lparr>devicename := d, connected := True\<rparr>\<rparr>\<rparr>"
  have su: "setup_device sim_lib w2 = (Returned (), w3)"
    using name s1 by (simp add: setup_device_def w2_def w3_def sim_lib_fields h_def)
  have "open_device sim_lib tisgrabber w p
      = (Returned True, emit INFO (''Device '' @ devicename (userdata (self w3)) @ '' open'') w3)"
  proof (cases "IC_IsDevValid sim_lib (dll w1) (m_hGrabber (self w1)) = 0")
    case True
    have same: "w2\<lparr>self := (self w2)\<lparr>m_hGrabber := m_hGrabber (self w1)\<rparr>\<rparr> = w2"
      by (simp add: w2_def)
    show ?thesis using l True sel [OF True] same valid2 su by (simp add: open_device_def)
  next
    case False
    show ?thesis using l False keep [OF False] valid2 su by (simp add: open_device_def)
  qed
  then show ?thesis
    using name s1 by (simp add: emit_def w3_def w2_def v'_def sim_lib_fields h_def)
qed

text \<open>
  Claim C8. With exactly one camera enumerated, \<^verbatim>\<open>open_device\<close> on a session whose
  grabber has no device open returns \<open>True\<close> with that camera open on the session's own
  grabber, and the selection dialog is not shown. This holds for every configuration
  path, the empty one of the claim among them.
\<close>

theorem open_device_one_device:
  assumes "devices (dll w) = [d]"
      and "lookup (dll w) (m_hGrabber (self w)) = Some g"
      and "device g = None"
  shows "fst (open_device sim_lib tisgrabber w p) = Returned True
       \<and> dialogs_shown (dll (snd (open_device sim_lib tisgrabber w p))) = dialogs_shown (dll w)
       \<and> m_hGrabber (self (snd (open_device sim_lib tisgrabber w p))) = m_hGrabber (self w)
       \<and> IC_GetDeviceName sim_lib (dll (snd (open_device sim_lib tisgrabber w p)))
            (m_hGrabber (self w)) = Some d
       \<and> userdata (self (snd (open_device sim_lib tisgrabber w p)))
           = (userdata (self w))\<lparr>devicename := d, connected := True\<rparr>"
proof -
  have "m_hGrabber (self w) \<noteq> 0"
    using assms(2) by (auto simp: lookup_def split: if_splits)
  then show ?thesis
    using open_device_single_camera [OF assms, of p]
    by (simp add: sim_lib_fields sim_GetDeviceName_def lookup_def)
qed

theorem open_device_one_device_witness:
  "devices (dll plugged_in) = [''cam0'']
   \<and> lookup (dll plugged_in) (m_hGrabber (self plugged_in)) = Some \<lparr>device = None, live = False\<rparr>
   \<and> fst (open_device sim_lib tisgrabber plugged_in '''') = Returned True
   \<and> dialogs_shown (dll (snd (open_device sim_lib tisgrabber plugged_in ''''))) = 0
   \<and> IC_GetDeviceName sim_lib (dll (snd (open_device sim_lib tisgrabber plugged_in '''')))
        (m_hGrabber (self plugged_in)) = Some ''cam0''"
proof -
  have a: "devices (dll plugged_in) = [''cam0'']" by (simp add: plugged_in_eq)
  have b: "lookup (dll plugged_in) (m_hGrabber (self plugged_in))
             = Some \<lparr>device = None, live = False\<rparr>"
    by (simp add: plugged_in_eq lookup_def)
  have c: "device \<lparr>device = None, live = False\<rparr> = None" by simp
  have e: "dialogs_shown (dll plugged_in) = 0" by (simp add: plugged_in_eq)
  show ?thesis using open_device_one_device [OF a b c, of "''''"] a b e by simp
qed

subsection \<open>Grabbers over the life of a session\<close>

lemma flip_image_sim: "flip_image sim_lib w = (Returned (), w)"
  by (simp add: flip_image_def sim_lib_def)

lemma start_world:
  "m_hGrabber (self (snd (start ic w b))) = m_hGrabber (self w)
   \<and> dll (snd (start ic w b)) = snd (IC_StartLive ic (dll w) (m_hGrabber (self w)) b)"
  by (simp add: start_def get_image_description_def Let_def split: prod.splits)

lemma init_sim:
  assumes "fst (open_device sim_lib tisgrabber
             \<lparr>self = \<lparr>m_width = 0, m_height = 0, m_bits_per_pixel = 0, m_color_format = 0,
                       m_channel = 0, m_buffer_size = 0, IC_MsgBox_show = b,
                       userdata = \<lparr>unsused = '''', devicename = '''', connected = False\<rparr>,
                       m_hGrabber = fst (sim_CreateGrabber v0)\<rparr>,
              dll = snd (sim_CreateGrabber v0), logged = []\<rparr> p) = Returned opened"
  shows "snd (init sim_lib tisgrabber v0 p b)
       = snd (start sim_lib (snd (open_device sim_lib tisgrabber
             \<lparr>self = \<lparr>m_width = 0, m_height = 0, m_bits_per_pixel = 0, m_color_format = 0,
                       m_channel = 0, m_buffer_size = 0, IC_MsgBox_show = b,
                       userdata = \<lparr>unsused = '''', devicename = '''', connected = False\<rparr>,
                       m_hGrabber = fst (sim_CreateGrabber v0)\<rparr>,
              dll = snd (sim_CreateGrabber v0), logged = []\<rparr> p)) False)"
proof -
  have sel: "IC_InitLibrary sim_lib = (\<lambda>v n. (1, v))" "IC_CreateGrabber sim_lib = sim_CreateGrabber"
    by (simp_all add: sim_lib_def)
  show ?thesis
    using assms
    by (auto simp: init_def sel flip_image_sim Let_def split: prod.splits outcome.splits)
qed

text \<open>
  On the desk, with at most one camera: the session's grabber is the only object of the
  library's table, and \<^verbatim>\<open>release\<close> empties the table when the device is valid and
  leaves everything as it is when no device was opened.
\<close>

lemma one_grabber_per_session:
  assumes "length (devices v0) \<le> 1" and "table v0 = Map.empty" and "fresh v0 \<noteq> 0"
  shows "m_hGrabber (self (snd (init sim_lib tisgrabber v0 p b))) = fresh v0
       \<and> dom (table (dll (snd (init sim_lib tisgrabber v0 p b)))) = {fresh v0}
       \<and> (if IC_IsDevValid sim_lib (dll (snd (init sim_lib tisgrabber v0 p b)))
                (m_hGrabber (self (snd (init sim_lib tisgrabber v0 p b)))) \<noteq> 0
           then dom (table (dll (snd (release sim_lib (snd (init sim_lib tisgrabber v0 p b)))))) = {}
              \<and> m_hGrabber (self (snd (release sim_lib (snd (init sim_lib tisgrabber v0 p b))))) = 0
           else snd (release sim_lib (snd (init sim_lib tisgrabber v0 p b)))
              = snd (init sim_lib tisgrabber v0 p b))"
proof -
  define h where "h = fresh v0"
  define g0 where "g0 = \<lparr>device = None, live = False\<rparr>"
  define v2 where "v2 = v0\<lparr>table := [h \<mapsto> g0], fresh := Suc h\<rparr>"
  define w0 where "w0 =
     \<lparr>self = \<lparr>m_width = 0, m_height = 0, m_bits_per_pixel = 0, m_color_format = 0,
               m_channel = 0, m_buffer_size = 0, IC_MsgBox_show = b,
               userdata = \<lparr>unsused = '''', devicename = '''', connected = False\<rparr>,
               m_hGrabber = h\<rparr>,
      dll = v2, logged = []\<rparr>"
  define W where "W = snd (init sim_lib tisgrabber v0 p b)"
  have cg: "sim_CreateGrabber v0 = (h, v2)"
    using assms(2) by (simp add: sim_CreateGrabber_def h_def v2_def g0_def)
  have look: "lookup v2 h = Some g0" using assms(3) by (simp add: lookup_def v2_def h_def)
  have invalid: "IC_IsDevValid sim_lib (dll w0) (m_hGrabber (self w0)) = 0"
    using look by (simp add: w0_def sim_lib_fields sim_IsDevValid_def g0_def)
  have sl: "IC_StartLive sim_lib = (\<lambda>v h create_window. sim_set_live True v h)"
       "IC_StopLive sim_lib = sim_set_live False"
       "IC_ReleaseGrabber sim_lib = sim_ReleaseGrabber"
    by (simp_all add: sim_lib_def)
  consider (none) "devices v0 = []" | (one) d where "devices v0 = [d]"
    using assms(1) by (cases "devices v0") auto
  then show ?thesis
  proof cases
    case none
    then have "devices (dll w0) = []" by (simp add: w0_def v2_def)
    from open_device_empty_desk [OF this invalid, of p]
    have od: "fst (open_device sim_lib tisgrabber w0 p) = Returned False"
      and s1: "self (snd (open_device sim_lib tisgrabber w0 p)) = self w0"
      and d1: "dll (snd (open_device sim_lib tisgrabber w0 p)) = v2"
      by (simp_all add: w0_def)
    have W1: "W = snd (start sim_lib (snd (open_device sim_lib tisgrabber w0 p)) False)"
      using init_sim [of b v0 p False] od cg by (simp add: W_def w0_def)
    have hW: "m_hGrabber (self W) = h" and dW: "dll W = v2"
      using start_world [of sim_lib "snd (open_device sim_lib tisgrabber w0 p)" False] s1 d1 look
      by (simp_all add: W1 sl sim_set_live_def g0_def w0_def)
    have "IC_IsDevValid sim_lib (dll W) (m_hGrabber (self W)) = 0"
      using hW dW look by (simp add: sim_lib_fields sim_IsDevValid_def g0_def)
    then show ?thesis
      using hW dW by (simp add: W_def [symmetric] release_def v2_def h_def)
  next
    case one
    then have dv: "devices (dll w0) = [d]" by (simp add: w0_def v2_def)
    have lk: "lookup (dll w0) (m_hGrabber (self w0)) = Some g0" using look by (simp add: w0_def)
    have g: "device g0 = None" by (simp add: g0_def)
    from open_device_single_camera [OF dv lk g, of p]
    have od: "fst (open_device sim_lib tisgrabber w0 p) = Returned True"
      and s1: "m_hGrabber (self (snd (open_device sim_lib tisgrabber w0 p))) = h"
      and d1: "dll (snd (open_device sim_lib tisgrabber w0 p))
                 = v2\<lparr>table := (table v2)(h \<mapsto> g0\<lparr>device := Some d\<rparr>)\<rparr>"
      by (simp_all add: w0_def)
    have W1: "W = snd (start sim_lib (snd (open_device sim_lib tisgrabber w0 p)) False)"
      using init_sim [of b v0 p True] od cg by (simp add: W_def w0_def)
    have hW: "m_hGrabber (self W) = h"
      and dW: "dll W = v2\<lparr>table := [h \<mapsto> \<lparr>device = Some d, live = True\<rparr>]\<rparr>"
      using start_world [of sim_lib "snd (open_device sim_lib tisgrabber w0 p)" False] s1 d1
        assms(3)
      by (simp_all add: W1 sl sim_set_live_def lookup_def g0_def v2_def h_def)
    have "IC_IsDevValid sim_lib (dll W) (m_hGrabber (self W)) = 1"
      using hW dW assms(3) by (simp add: sim_lib_fields sim_IsDevValid_def lookup_def h_def)
    then show ?thesis
      using hW dW assms(3)
      by (simp add: W_def [symmetric] release_def sl sim_set_live_def sim_ReleaseGrabber_def
            lookup_def h_def)
  qed
qed

theorem release_keeps_unopened_grabber_counterexample:
  "m_hGrabber (self no_camera) = 1
   \<and> table (dll no_camera) 1 = Some \<lparr>device = None, live = False\<rparr>
   \<and> release sim_lib no_camera = (Returned (), no_camera)
   \<and> table (dll (snd (release sim_lib no_camera))) 1 = Some \<lparr>device = None, live = False\<rparr>"
  by (simp add: no_camera_eq release_def sim_defs)

text \<open>
  The selection dialog, which the session calls without a grabber, hands back a grabber
  of its own; \<^verbatim>\<open>open_device\<close> stores it over the one created at construction. With two
  cameras on the desk grabber 1 stays in the table, also after \<^verbatim>\<open>release\<close>, which
  releases grabber 2 only.
\<close>

lemma dialog_path_leaves_first_grabber:
  "m_hGrabber (self two_cameras) = 2
   \<and> dialogs_shown (dll two_cameras) = 1
   \<and> table (dll two_cameras) 1 = Some \<lparr>device = None, live = False\<rparr>
   \<and> table (dll two_cameras) 2 = Some \<lparr>device = Some ''cam0'', live = True\<rparr>
   \<and> fst (release sim_lib two_cameras) = Returned ()
   \<and> m_hGrabber (self (snd (release sim_lib two_cameras))) = 0
   \<and> table (dll (snd (release sim_lib two_cameras))) 2 = None
   \<and> table (dll (snd (release sim_lib two_cameras))) 1 = Some \<lparr>device = None, live = False\<rparr>"
  by (simp add: two_cameras_eq release_def sim_defs)

lemma select_device_own_handle:
  "IC_GetDeviceCount ic (dll w) \<le> 1 \<Longrightarrow> fst (select_device ic w) = m_hGrabber (self w)"
  by (simp add: select_device_def Let_def split: prod.splits)

lemma setup_device_handle: "m_hGrabber (self (snd (setup_device ic w))) = m_hGrabber (self w)"
  by (simp add: setup_device_def Let_def split: option.splits prod.splits)

lemma open_device_own_handle:
  assumes "no_dialog_needed ic (dll w) (m_hGrabber (self w)) p"
  shows "m_hGrabber (self (snd (open_device ic tis w p))) = m_hGrabber (self w)"
proof -
  obtain r w1 where l: "load_properties ic tis w p True = (r, w1)" by force
  have s1: "self w1 = self w"
    and d1: "dll w1 = snd (IC_LoadDeviceStateFromFileEx ic (dll w) (m_hGrabber (self w)) p True)"
    using load_properties_world [of ic tis w p True] l by simp_all
  define w2 where "w2 = (if IC_IsDevValid ic (dll w1) (m_hGrabber (self w1)) = 0 then
                  (let (h, w') = select_device ic w1
                   in w'\<lparr>self := (self w')\<lparr>m_hGrabber := h\<rparr>\<rparr>)
                else w1)"
  have h2: "m_hGrabber (self w2) = m_hGrabber (self w)"
  proof (cases "IC_IsDevValid ic (dll w1) (m_hGrabber (self w1)) = 0")
    case True
    then have "IC_GetDeviceCount ic (dll w1) \<le> 1"
      using assms s1 d1 by (simp add: no_dialog_needed_def)
    then have "fst (select_device ic w1) = m_hGrabber (self w1)"
      by (rule select_device_own_handle)
    then show ?thesis using True s1 by (auto simp: w2_def split: prod.splits)
  next
    case False
    then show ?thesis using s1 by (simp add: w2_def)
  qed
  have "self (snd (open_device ic tis w p)) = self w2
      \<or> self (snd (open_device ic tis w p)) = self (snd (setup_device ic w2))"
    using l
    by (simp add: open_device_def w2_def [symmetric] emit_def handle_device_open_error_def
          split: prod.splits outcome.splits)
  then show ?thesis using h2 setup_device_handle [of ic w2] by auto
qed

lemma call_keeps_handle:
  assumes "\<forall>q. a \<noteq> Open_device q" and "a \<noteq> Release"
  shows "m_hGrabber (self (snd (call ic tis a w))) = m_hGrabber (self w)"
  using assms
  by (cases a)
     (simp_all add: returning_def read_def load_properties_def start_def
        get_image_description_def show_property_dialog_def
        list_available_properties_def save_properties_def emit_def Let_def
        split: prod.splits option.splits sum.splits)

lemma step_keeps_handle:
  assumes "\<forall>q. e \<noteq> Call (Open_device q)" and "e \<noteq> Call Release"
  shows "m_hGrabber (self (snd (step ic tis e w))) = m_hGrabber (self w)"
proof (cases e)
  case (Call a)
  then show ?thesis using assms call_keeps_handle [of a ic tis w] by simp
next
  case DeviceLost
  then show ?thesis by (simp add: deviceLostCallback_def Let_def)
next
  case (Vendor v')
  then show ?thesis by simp
qed

lemma flip_image_self: "self (snd (flip_image ic w)) = self w"
  by (simp add: flip_image_def Let_def split: prod.splits)

text \<open>
  Claim C5, amended. The handle a session holds after construction is the one
  \<^verbatim>\<open>IC_CreateGrabber\<close> returned, as long as no selection dialog is needed. No step
  other than \<^verbatim>\<open>release\<close> and \<^verbatim>\<open>open_device\<close> changes the held handle, and
  \<^verbatim>\<open>open_device\<close> keeps it when it needs no selection dialog. \<^verbatim>\<open>release\<close> stops
  acquisition and releases the held handle when its device is valid, and does nothing
  at all when it is not: a session whose device never opened keeps its grabber. The
  statement says nothing of the path through the selection dialog.
\<close>

theorem session_keeps_created_grabber:
  assumes "no_dialog_needed ic (snd (IC_CreateGrabber ic (snd (IC_InitLibrary ic v0 0))))
             (fst (IC_CreateGrabber ic (snd (IC_InitLibrary ic v0 0)))) p"
  shows "m_hGrabber (self (snd (init ic tis v0 p b)))
           = fst (IC_CreateGrabber ic (snd (IC_InitLibrary ic v0 0)))
       \<and> ((\<forall>q. e \<noteq> Call (Open_device q)) \<and> e \<noteq> Call Release
            \<longrightarrow> m_hGrabber (self (snd (step ic tis e w))) = m_hGrabber (self w))
       \<and> (no_dialog_needed ic (dll w) (m_hGrabber (self w)) q
            \<longrightarrow> m_hGrabber (self (snd (open_device ic tis w q))) = m_hGrabber (self w))
       \<and> release ic w
           = (if IC_IsDevValid ic (dll w) (m_hGrabber (self w)) \<noteq> 0
              then (Returned (),
                    w\<lparr>self := (self w)\<lparr>m_hGrabber :=
                          fst (IC_ReleaseGrabber ic
                                 (snd (IC_StopLive ic (dll w) (m_hGrabber (self w))))
                                 (m_hGrabber (self w)))\<rparr>,
                      dll := snd (IC_ReleaseGrabber ic
                                 (snd (IC_StopLive ic (dll w) (m_hGrabber (self w))))
                                 (m_hGrabber (self w)))\<rparr>)
              else (Returned (), w))"
proof -
  define h0 where "h0 = fst (IC_CreateGrabber ic (snd (IC_InitLibrary ic v0 0)))"
  define v2 where "v2 = snd (IC_CreateGrabber ic (snd (IC_InitLibrary ic v0 0)))"
  define w0 where "w0 =
     \<lparr>self = \<lparr>m_width = 0, m_height = 0, m_bits_per_pixel = 0, m_color_format = 0,
               m_channel = 0, m_buffer_size = 0, IC_MsgBox_show = b,
               userdata = \<lparr>unsused = '''', devicename = '''', connected = False\<rparr>,
               m_hGrabber = h0\<rparr>,
      dll = v2, logged = []\<rparr>"
  have od: "m_hGrabber (self (snd (open_device ic tis w0 p))) = h0"
    using open_device_own_handle [of ic w0 p tis] assms
    by (simp add: w0_def h0_def v2_def)
  have created: "m_hGrabber (self (snd (init ic tis v0 p b))) = h0"
  proof (cases "fst (open_device ic tis w0 p)")
    case (Returned opened)
    then have "snd (init ic tis v0 p b)
        = snd (start ic (snd (flip_image ic (snd (open_device ic tis w0 p)))) False)"
      by (auto simp: init_def w0_def h0_def v2_def Let_def split: prod.splits outcome.splits)
    then show ?thesis
      using od start_world [of ic "snd (flip_image ic (snd (open_device ic tis w0 p)))" False]
        flip_image_self [of ic "snd (open_device ic tis w0 p)"]
      by simp
  next
    case (Raised e)
    then have "snd (init ic tis v0 p b) = snd (open_device ic tis w0 p)"
      by (auto simp: init_def w0_def h0_def v2_def Let_def split: prod.splits outcome.splits)
    then show ?thesis using od by simp
  qed
  have released: "release ic w
           = (if IC_IsDevValid ic (dll w) (m_hGrabber (self w)) \<noteq> 0
              then (Returned (),
                    w\<lparr>self := (self w)\<lparr>m_hGrabber :=
                          fst (IC_ReleaseGrabber ic
                                 (snd (IC_StopLive ic (dll w) (m_hGrabber (self w))))
                                 (m_hGrabber (self w)))\<rparr>,
                      dll := snd (IC_ReleaseGrabber ic
                                 (snd (IC_StopLive ic (dll w) (m_hGrabber (self w))))
                                 (m_hGrabber (self w)))\<rparr>)
              else (Returned (), w))"
    by (simp add: release_def Let_def split: prod.splits)
  show ?thesis
    using created released step_keeps_handle [of e ic tis w]
      open_device_own_handle [of ic w q tis]
    by (simp add: h0_def)
qed

theorem session_keeps_created_grabber_witness:
  "no_dialog_needed sim_lib
     (snd (IC_CreateGrabber sim_lib (snd (IC_InitLibrary sim_lib (desk [''cam0'']) 0))))
     (fst (IC_CreateGrabber sim_lib (snd (IC_InitLibrary sim_lib (desk [''cam0'']) 0)))) ''''
   \<and> fst (IC_CreateGrabber sim_lib (snd (IC_InitLibrary sim_lib (desk [''cam0'']) 0))) = 1
   \<and> m_hGrabber (self one_camera) = 1
   \<and> dom (table (dll one_camera)) = {1}
   \<and> m_hGrabber (self (snd (step sim_lib tisgrabber DeviceLost one_camera))) = 1
   \<and> no_dialog_needed sim_lib (dll one_camera) (m_hGrabber (self one_camera)) ''''
   \<and> m_hGrabber (self (snd (open_device sim_lib tisgrabber one_camera ''''))) = 1
   \<and> IC_IsDevValid sim_lib (dll one_camera) (m_hGrabber (self one_camera)) = 1
   \<and> fst (release sim_lib one_camera) = Returned ()
   \<and> m_hGrabber (self (snd (release sim_lib one_camera))) = 0
   \<and> dom (table (dll (snd (release sim_lib one_camera)))) = {}"
proof -
  have a: "no_dialog_needed sim_lib
     (snd (IC_CreateGrabber sim_lib (snd (IC_InitLibrary sim_lib (desk [''cam0'']) 0))))
     (fst (IC_CreateGrabber sim_lib (snd (IC_InitLibrary sim_lib (desk [''cam0'']) 0)))) ''''"
    by (simp add: no_dialog_needed_def sim_defs)
  have c: "fst (IC_CreateGrabber sim_lib (snd (IC_InitLibrary sim_lib (desk [''cam0'']) 0))) = 1"
    by (simp add: sim_defs)
  have n: "no_dialog_needed sim_lib (dll one_camera) (m_hGrabber (self one_camera)) ''''"
    by (simp add: no_dialog_needed_def one_camera_eq sim_defs)
  have v: "IC_IsDevValid sim_lib (dll one_camera) (m_hGrabber (self one_camera)) = 1"
    by (simp add: one_camera_eq sim_defs)
  have d: "dom (table (dll one_camera)) = {1}" by (simp add: one_camera_eq)
  have r: "m_hGrabber (self (snd (release sim_lib one_camera))) = 0
         \<and> dom (table (dll (snd (release sim_lib one_camera)))) = {}
         \<and> fst (release sim_lib one_camera) = Returned ()"
    by (simp add: one_camera_eq release_def sim_defs)
  have h: "m_hGrabber (self one_camera) = 1" by (simp add: one_camera_eq)
  from session_keeps_created_grabber [OF a, of tisgrabber True DeviceLost one_camera "''''"]
  have "m_hGrabber (self (snd (step sim_lib tisgrabber DeviceLost one_camera))) = 1
      \<and> m_hGrabber (self (snd (open_device sim_lib tisgrabber one_camera ''''))) = 1"
    using n h by simp
  then show ?thesis using a c n v d r h by simp
qed

subsection \<open>The flag a read returns\<close>

text \<open>
  Claim C10. When the snap succeeds and the image pointer is not null, a \<^verbatim>\<open>read\<close> that
  returns gives the current connected flag as the first element, with the frame as the
  second. In particular a session whose flag the device-lost notification has cleared
  gets \<open>(False, frame)\<close>: the second part is such a run.
\<close>

theorem read_returns_flag:
  assumes "IC_SnapImage ic (dll w) (m_hGrabber (self w)) (- 1) = (IC_SUCCESS tis, v1)"
      and "IC_GetImagePtr ic v1 (m_hGrabber (self w)) = Some p"
      and "read ic tis w = (Returned r, w')"
  shows "(\<exists>frame. r = Some (is_connected w, Some frame))
       \<and> is_connected one_camera
       \<and> fst (read sim_lib tisgrabber (snd (step sim_lib tisgrabber DeviceLost one_camera)))
           = Returned (Some (False, Some \<lparr>nd_buffer = 4096, nd_shape = [480, 640, 3]\<rparr>))"
proof -
  have "\<exists>frame. r = Some (is_connected w, Some frame)"
    using assms
    by (auto simp: read_def is_connected_def Let_def split: sum.splits)
  moreover have "is_connected one_camera"
    by (simp add: one_camera_eq is_connected_def)
  moreover have "fst (read sim_lib tisgrabber (snd (step sim_lib tisgrabber DeviceLost one_camera)))
           = Returned (Some (False, Some \<lparr>nd_buffer = 4096, nd_shape = [480, 640, 3]\<rparr>))"
    by (simp add: one_camera_eq deviceLostCallback_def read_def sim_lib_def
          c_ubyte_array_def np_ndarray_def itemsize_uint8_def tisgrabber_def)
  ultimately show ?thesis by blast
qed

theorem read_returns_flag_witness:
  "IC_SnapImage sim_lib (dll one_camera) (m_hGrabber (self one_camera)) (- 1)
     = (IC_SUCCESS tisgrabber, dll one_camera)
   \<and> IC_GetImagePtr sim_lib (dll one_camera) (m_hGrabber (self one_camera)) = Some 4096
   \<and> read sim_lib tisgrabber one_camera
       = (Returned (Some (True, Some \<lparr>nd_buffer = 4096, nd_shape = [480, 640, 3]\<rparr>)), one_camera)
   \<and> is_connected one_camera"
proof -
  have a: "IC_SnapImage sim_lib (dll one_camera) (m_hGrabber (self one_camera)) (- 1)
     = (IC_SUCCESS tisgrabber, dll one_camera)"
    by (simp add: one_camera_eq sim_lib_def tisgrabber_def)
  have b: "IC_GetImagePtr sim_lib (dll one_camera) (m_hGrabber (self one_camera)) = Some 4096"
    by (simp add: one_camera_eq sim_lib_def)
  have c: "read sim_lib tisgrabber one_camera
       = (Returned (Some (True, Some \<lparr>nd_buffer = 4096, nd_shape = [480, 640, 3]\<rparr>)), one_camera)"
    by (simp add: one_camera_eq read_def sim_lib_def
          c_ubyte_array_def np_ndarray_def itemsize_uint8_def tisgrabber_def)
  show ?thesis using read_returns_flag [OF a b c] a b c by blast
qed

end
